theory Spec2Isabelle
  imports Complex_Main "HOL-Library.Product_Lexorder" "HOL-Library.Multiset"
begin

section \<open>Time, errors and the static configuration\<close>

text \<open>
  An instant (Python's \<open>datetime.datetime\<close>) is a number of microseconds since the
  epoch, a calendar date (\<open>datetime.date\<close>) a number of days since the epoch. A caller
  passes either of them as a bound; \<open>isinstance(dt, datetime.datetime)\<close> tells them apart.
\<close>

type_synonym instant = int

datatype date_or_datetime = Date int | DateTime instant

datatype error =
    RuntimeError string
  | ValueError string
  | KeyError string
  | TypeError string
  | IndexError
  | AttributeError

definition MINUTE :: int where
  "MINUTE = 60000000"

definition DAY :: int where
  "DAY = 1440 * MINUTE"

text \<open>\<open>SolarDBConfig.P_FREQUENCY_D\<close> (5 minutes) and \<open>SolarDBConfig.S_FREQUENCY_D\<close> (1 hour).\<close>

definition P_FREQUENCY_D :: int where
  "P_FREQUENCY_D = 5 * MINUTE"

definition S_FREQUENCY_D :: int where
  "S_FREQUENCY_D = 60 * MINUTE"

text \<open>
  Modelled from the spec: \<open>solardb/common/util.py\<close> is not part of the sources at hand.
  \<open>date_earliest_date_time\<close> and \<open>date_latest_date_time\<close> are the start-of-day and the
  end-of-day instant of a calendar date (the last microsecond of the day), \<open>freq_floor\<close>
  and \<open>freq_ceil\<close> round an instant down and up to a boundary of the given frequency.
\<close>

definition date_earliest_date_time :: "int \<Rightarrow> instant" where
  "date_earliest_date_time d = d * DAY"

definition date_latest_date_time :: "int \<Rightarrow> instant" where
  "date_latest_date_time d = d * DAY + (DAY - 1)"

definition freq_floor :: "instant \<Rightarrow> int \<Rightarrow> instant" where
  "freq_floor t f = t - t mod f"

definition freq_ceil :: "instant \<Rightarrow> int \<Rightarrow> instant" where
  "freq_ceil t f = t + (- t) mod f"

section \<open>Identity of a power plant or inverter\<close>

datatype PowerPlantID = PowerPlantID (pp_id: int) (inv_id: "int option")

definition is_whole_power_plant :: "PowerPlantID \<Rightarrow> bool" where
  "is_whole_power_plant x = (inv_id x = None)"

text \<open>\<open>PowerPlantID.__lt__\<close>, with the source's nesting of \<open>or\<close> and \<open>and\<close>.\<close>

definition PowerPlantID_lt :: "PowerPlantID \<Rightarrow> PowerPlantID \<Rightarrow> bool" where
  "PowerPlantID_lt self other =
     (pp_id self < pp_id other \<or>
      (pp_id self = pp_id other \<and>
       (inv_id self = None \<or>
        (inv_id other \<noteq> None \<and> the (inv_id self) < the (inv_id other)))))"

definition PowerPlantID_eq :: "PowerPlantID \<Rightarrow> PowerPlantID \<Rightarrow> bool" where
  "PowerPlantID_eq self other =
     (pp_id self = pp_id other \<and> inv_id self = inv_id other)"

text \<open>
  \<open>PowerPlantIDT = Union[int, Tuple[int, int], PowerPlantID]\<close>; \<open>get_pp_id\<close> also takes
  a list. Reading \<open>pp_id[0]\<close> of an empty sequence raises.
\<close>

datatype PowerPlantIDT = PlantInt int | PlantSeq "int list" | PlantID PowerPlantID

fun get_pp_id :: "PowerPlantIDT \<Rightarrow> error + PowerPlantID" where
  "get_pp_id (PlantID x) = Inr x"
| "get_pp_id (PlantSeq []) = Inl IndexError"
| "get_pp_id (PlantSeq (p # rest)) =
     Inr (PowerPlantID p (Some (if length (p # rest) < 2 then - 1 else hd rest)))"
| "get_pp_id (PlantInt p) = Inr (PowerPlantID p (Some (- 1)))"

section \<open>Tables\<close>

text \<open>
  A table is the list of its records, in storage order. Nullable columns are options;
  \<open>Float\<close> columns hold exact rationals here, \<open>Integer\<close> columns integers.
\<close>

record power_row =
  p_pp_id :: int
  p_inv_id :: int
  p_dt :: instant
  p_power_ac :: "int option"
  p_power_dc :: "int option"
  p_energy_hour :: "int option"
  p_energy_day :: "int option"
  p_energy_week :: "int option"
  p_energy_month :: "int option"
  p_ipolated :: "bool option"
  p_epolated :: "bool option"

record exogenous_row =
  x_pp_id :: int
  x_dt :: instant
  x_sun_altitude :: "rat option"
  x_sun_azimuth :: "rat option"
  x_sun_irradiance :: "rat option"
  x_status :: "int option"
  x_error :: "int option"
  x_clear :: "rat option"

text \<open>A fetched frame: the names of its index columns and its rows, in order.\<close>

record 'r frame =
  idx_columns :: "string list"
  rows :: "'r list"

section \<open>Range queries over power and exogenous records\<close>

text \<open>
  \<open>SolarDBData.get_pp_power\<close> and \<open>SolarDBData.get_pp_exogenous\<close>, with \<open>columns\<close> at
  its default (every column that is not part of the key). \<open>ORDER BY dt\<close> is a stable
  sort of the table. The index columns are chosen from the identifier as the caller
  passed it, before it is resolved: \<open>pp_id.is_whole_power_plant()\<close> on an integer or a
  sequence raises.
\<close>

definition get_pp_power ::
  "power_row list \<Rightarrow> PowerPlantIDT option \<Rightarrow> date_or_datetime option \<Rightarrow>
   date_or_datetime option \<Rightarrow> bool \<Rightarrow> error + power_row frame" where
  "get_pp_power db pp dt_start dt_end all_indices =
     (case (case pp of
              None \<Rightarrow> Inr [''pp_id'', ''inv_id'', ''dt'']
            | Some i \<Rightarrow>
                if all_indices then Inr [''pp_id'', ''inv_id'', ''dt'']
                else (case i of
                        PlantID x \<Rightarrow>
                          Inr (if is_whole_power_plant x then [''inv_id'', ''dt''] else [''dt''])
                      | _ \<Rightarrow> Inl AttributeError)) of
        Inl e \<Rightarrow> Inl e
      | Inr idx \<Rightarrow>
          (case (case pp of None \<Rightarrow> Inr None
                 | Some i \<Rightarrow> (case get_pp_id i of Inl e \<Rightarrow> Inl e | Inr x \<Rightarrow> Inr (Some x))) of
             Inl e \<Rightarrow> Inl e
           | Inr who \<Rightarrow>
               Inr \<lparr>idx_columns = idx,
                    rows = filter (\<lambda>r.
                      (case who of None \<Rightarrow> True
                       | Some x \<Rightarrow> p_pp_id r = pp_id x \<and>
                           (is_whole_power_plant x \<or> p_inv_id r = the (inv_id x))) \<and>
                      (case dt_start of None \<Rightarrow> True
                       | Some (DateTime t) \<Rightarrow> t \<le> p_dt r
                       | Some (Date d) \<Rightarrow> date_earliest_date_time d \<le> p_dt r) \<and>
                      (case dt_end of None \<Rightarrow> True
                       | Some (DateTime t) \<Rightarrow> p_dt r \<le> t
                       | Some (Date d) \<Rightarrow> p_dt r \<le> date_earliest_date_time d))
                      (sort_key p_dt db)\<rparr>))"

definition get_pp_exogenous ::
  "exogenous_row list \<Rightarrow> PowerPlantIDT option \<Rightarrow> date_or_datetime option \<Rightarrow>
   date_or_datetime option \<Rightarrow> bool \<Rightarrow> error + exogenous_row frame" where
  "get_pp_exogenous db pp dt_start dt_end all_indices =
     (case (case pp of None \<Rightarrow> Inr None
            | Some i \<Rightarrow> (case get_pp_id i of Inl e \<Rightarrow> Inl e | Inr x \<Rightarrow> Inr (Some x))) of
        Inl e \<Rightarrow> Inl e
      | Inr who \<Rightarrow>
          Inr \<lparr>idx_columns = (if pp = None \<or> all_indices then [''pp_id''] else []) @ [''dt''],
               rows = filter (\<lambda>r.
                 (case who of None \<Rightarrow> True | Some x \<Rightarrow> x_pp_id r = pp_id x) \<and>
                 (case dt_start of None \<Rightarrow> True
                  | Some (DateTime t) \<Rightarrow> t \<le> x_dt r
                  | Some (Date d) \<Rightarrow> date_earliest_date_time d \<le> x_dt r) \<and>
                 (case dt_end of None \<Rightarrow> True
                  | Some (DateTime t) \<Rightarrow> x_dt r \<le> t
                  | Some (Date d) \<Rightarrow> x_dt r \<le> date_earliest_date_time d))
                 (sort_key x_dt db)\<rparr>)"

section \<open>Grids and reindexing\<close>

text \<open>
  \<open>pd.date_range(start, end, freq)\<close> lists \<open>start, start + freq, ...\<close> up to \<open>end\<close>;
  with \<open>closed="left"\<close> a last point equal to \<open>end\<close> is dropped. \<open>reindex\<close> looks each
  grid point up in the frame and leaves a missing row (None) where there is none; pandas
  refuses to reindex a frame whose index has duplicates. A Python slice \<open>[:n]\<close> with a
  negative \<open>n\<close> drops from the end.
\<close>

definition date_range :: "instant \<Rightarrow> instant \<Rightarrow> int \<Rightarrow> instant list" where
  "date_range start end freq =
     map (\<lambda>k. start + int k * freq) [0..<nat ((end - start) div freq + 1)]"

definition date_range_closed_left :: "instant \<Rightarrow> instant \<Rightarrow> int \<Rightarrow> instant list" where
  "date_range_closed_left start end freq =
     (let ix = date_range start end freq
      in if ix \<noteq> [] \<and> last ix = end then butlast ix else ix)"

definition reindex :: "('r \<Rightarrow> instant) \<Rightarrow> 'r list \<Rightarrow> instant list \<Rightarrow> error + 'r option list" where
  "reindex key df grid =
     (if distinct (map key df)
      then Inr (map (\<lambda>g. find (\<lambda>r. key r = g) df) grid)
      else Inl (ValueError ''cannot reindex on an axis with duplicate labels''))"

definition iloc_upto :: "int \<Rightarrow> 'a list \<Rightarrow> 'a list" where
  "iloc_upto n xs = (if 0 \<le> n then take (nat n) xs else take (length xs - nat (- n)) xs)"

section \<open>Assembly of the power history\<close>

definition convert_date_time :: "date_or_datetime \<Rightarrow> instant" where
  "convert_date_time dt = (case dt of DateTime t \<Rightarrow> t | Date d \<Rightarrow> date_earliest_date_time d)"

definition prepare_frame_index :: "int \<Rightarrow> instant \<Rightarrow> instant \<Rightarrow> instant list" where
  "prepare_frame_index frequency dt_start dt_end =
     date_range_closed_left dt_start dt_end frequency"

text \<open>
  The row of the history frame at grid point \<open>g\<close>, without fallback: the stored row if
  the reindexed frame has one, every missing value filled (\<open>fillna\<close>: the numeric
  columns with 0, \<open>ipolated\<close> with False, \<open>epolated\<close> with True), and the identity
  assigned from the resolved identifier.
\<close>

definition fillna :: "'a \<Rightarrow> 'a option \<Rightarrow> 'a option" where
  "fillna v x = (case x of None \<Rightarrow> Some v | Some y \<Rightarrow> Some y)"

definition history_row :: "PowerPlantID \<Rightarrow> instant \<Rightarrow> power_row option \<Rightarrow> power_row" where
  "history_row x g cell =
     \<lparr>p_pp_id = pp_id x,
      p_inv_id = (case inv_id x of Some i \<Rightarrow> i | None \<Rightarrow> - 1),
      p_dt = g,
      p_power_ac = fillna 0 (Option.bind cell p_power_ac),
      p_power_dc = fillna 0 (Option.bind cell p_power_dc),
      p_energy_hour = fillna 0 (Option.bind cell p_energy_hour),
      p_energy_day = fillna 0 (Option.bind cell p_energy_day),
      p_energy_week = fillna 0 (Option.bind cell p_energy_week),
      p_energy_month = fillna 0 (Option.bind cell p_energy_month),
      p_ipolated = fillna False (Option.bind cell p_ipolated),
      p_epolated = fillna True (Option.bind cell p_epolated)\<rparr>"

text \<open>
  \<open>SolarDBAssembler.prepare_history\<close>. With fallback the first \<open>history_cnt\<close> fetched
  rows are re-labelled with the grid (\<open>set_index\<close> raises when their number differs from
  the grid's); without it they are reindexed onto the grid and the gaps filled.
\<close>

definition prepare_history ::
  "power_row list \<Rightarrow> PowerPlantIDT \<Rightarrow> date_or_datetime \<Rightarrow> int \<Rightarrow> bool \<Rightarrow>
   error + power_row frame" where
  "prepare_history db pp dt_start history_cnt history_fallback =
     (case get_pp_id pp of
        Inl e \<Rightarrow> Inl e
      | Inr x \<Rightarrow>
          (let start = convert_date_time dt_start;
               dt_alt_start = start - P_FREQUENCY_D * history_cnt;
               dt_alt_end = start;
               dt_ealt_end = start + P_FREQUENCY_D * history_cnt;
               frame_index = prepare_frame_index P_FREQUENCY_D dt_alt_start dt_alt_end
           in if history_fallback then
                (case get_pp_power db (Some (PlantID x)) (Some (DateTime dt_alt_start))
                        (Some (DateTime dt_ealt_end)) True of
                   Inl e \<Rightarrow> Inl e
                 | Inr power_df \<Rightarrow>
                     (let taken = iloc_upto history_cnt (rows power_df)
                      in if length taken \<noteq> length frame_index
                         then Inl (ValueError ''Length mismatch'')
                         else Inr \<lparr>idx_columns = [''pp_id'', ''inv_id'', ''dt''],
                                   rows = map (\<lambda>(g, r). r\<lparr>p_dt := g\<rparr>) (zip frame_index taken)\<rparr>))
              else
                (case get_pp_power db (Some (PlantID x)) (Some (DateTime dt_alt_start))
                        (Some (DateTime dt_alt_end)) True of
                   Inl e \<Rightarrow> Inl e
                 | Inr power_df \<Rightarrow>
                     (case reindex p_dt (iloc_upto history_cnt (rows power_df)) frame_index of
                        Inl e \<Rightarrow> Inl e
                      | Inr cells \<Rightarrow>
                          Inr \<lparr>idx_columns = [''pp_id'', ''inv_id'', ''dt''],
                               rows = map (\<lambda>(g, cell). history_row x g cell)
                                        (zip frame_index cells)\<rparr>))))"

section \<open>Weather records and their query\<close>

text \<open>\<open>SolarDBConfig.WEATHER_FEATURES\<close>: the numeric weather columns.\<close>

datatype feature =
    precip_int | precip_prob | temp | apparent_temp | dew_point | humidity
  | pressure | wind_speed | wind_bearing | cloud_cover | visibility

definition WEATHER_FEATURES :: "feature list" where
  "WEATHER_FEATURES =
     [precip_int, precip_prob, temp, apparent_temp, dew_point, humidity,
      pressure, wind_speed, wind_bearing, cloud_cover, visibility]"

record weather_row =
  w_pp_id :: int
  w_dt :: instant
  w_age :: int
  w_src_dt :: "instant option"
  w_summary :: "string option"
  w_features :: "feature \<Rightarrow> rat option"
  w_ipolated :: "bool option"
  w_epolated :: "bool option"

text \<open>
  A row of a frame at 5-minute cadence (\<open>srow\<close>) and a row of a fetched frame (\<open>wrow\<close>,
  which has \<open>src_dt\<close> and, when no selection mode is set, \<open>age\<close>). \<open>s_pp_id\<close> is None
  when the frame has no \<open>pp_id\<close> column. The \<open>src_dt\<close> column of a smoothed frame is
  recomputed in floating point from nanosecond counts (lines 575-578 of \<open>data.py\<close>); a
  smoothed row leaves it out.
\<close>

record srow =
  s_pp_id :: "int option"
  s_dt :: instant
  s_summary :: "string option"
  s_features :: "feature \<Rightarrow> rat option"
  s_ipolated :: "bool option"
  s_epolated :: "bool option"

record wrow = srow +
  r_age :: "int option"
  r_src_dt :: "instant option"

datatype weather_frame =
    Fetched "string list" "wrow list"
  | Smoothed "string list" "srow list"

text \<open>
  \<open>groupby("dt").first()\<close>: one row per timestamp, ascending; each column holds the
  first value of its group that is not null.
\<close>

fun first_non_null :: "'a option list \<Rightarrow> 'a option" where
  "first_non_null [] = None"
| "first_non_null (None # xs) = first_non_null xs"
| "first_non_null (Some v # xs) = Some v"

definition group_first :: "instant \<Rightarrow> wrow list \<Rightarrow> wrow" where
  "group_first g grp =
     \<lparr>s_pp_id = first_non_null (map s_pp_id grp),
      s_dt = g,
      s_summary = first_non_null (map s_summary grp),
      s_features = (\<lambda>f. first_non_null (map (\<lambda>r. s_features r f) grp)),
      s_ipolated = first_non_null (map s_ipolated grp),
      s_epolated = first_non_null (map s_epolated grp),
      r_age = first_non_null (map r_age grp),
      r_src_dt = first_non_null (map r_src_dt grp)\<rparr>"

definition groupby_dt_first :: "wrow list \<Rightarrow> wrow list" where
  "groupby_dt_first df =
     map (\<lambda>g. group_first g (filter (\<lambda>r. s_dt r = g) df)) (sort (remdups (map s_dt df)))"

text \<open>
  \<open>interpolate(method="time")\<close> on the numeric columns of a frame indexed by the grid:
  a missing value between two known ones is linear in elapsed time, a missing value
  after the last known one repeats it, a missing value before the first stays missing.
  \<open>prev\<close> is the last known point of each column so far.
\<close>

fun next_valid :: "'c \<Rightarrow> (instant \<times> ('c \<Rightarrow> rat option)) list \<Rightarrow> (instant \<times> rat) option" where
  "next_valid f [] = None"
| "next_valid f ((t, v) # rest) =
     (case v f of Some y \<Rightarrow> Some (t, y) | None \<Rightarrow> next_valid f rest)"

fun interpolate_time ::
  "('c \<Rightarrow> (instant \<times> rat) option) \<Rightarrow> (instant \<times> ('c \<Rightarrow> rat option)) list \<Rightarrow>
   ('c \<Rightarrow> rat option) list" where
  "interpolate_time prev [] = []"
| "interpolate_time prev ((t, v) # rest) =
     (\<lambda>f. case v f of
            Some y \<Rightarrow> Some y
          | None \<Rightarrow>
              (case prev f of
                 None \<Rightarrow> None
               | Some (t0, y0) \<Rightarrow>
                   (case next_valid f rest of
                      None \<Rightarrow> Some y0
                    | Some (t1, y1) \<Rightarrow>
                        Some (y0 + (y1 - y0) * of_int (t - t0) / of_int (t1 - t0)))))
     # interpolate_time (\<lambda>f. case v f of Some y \<Rightarrow> Some (t, y) | None \<Rightarrow> prev f) rest"

text \<open>\<open>ffill\<close>: a missing value takes the last value before it, if there is one.\<close>

fun ffill :: "'a option \<Rightarrow> 'a option list \<Rightarrow> 'a option list" where
  "ffill prev [] = []"
| "ffill prev (None # xs) = prev # ffill prev xs"
| "ffill prev (Some v # xs) = Some v # ffill (Some v) xs"

text \<open>
  pandas refuses to interpolate a frame whose columns are all of object type. A group
  has the column types of the frame \<open>df\<close> it was cut from: \<open>src_dt\<close> is a datetime
  column and a feature a float column as soon as one row of \<open>df\<close> has a value; a flag
  is a boolean column when no row of \<open>df\<close> lacks it, and stays one when the reindexing
  adds no row; \<open>summary\<close> is of object type. A frame without rows (an empty grid) is
  returned as it is.
\<close>

definition object_columns_only :: "wrow list \<Rightarrow> wrow list \<Rightarrow> instant list \<Rightarrow> bool" where
  "object_columns_only df idf grid =
     (list_all (\<lambda>r. r_src_dt r = None) df \<and>
      list_all (\<lambda>r. list_all (\<lambda>f. s_features r f = None) WEATHER_FEATURES) df \<and>
      (list_ex (\<lambda>r. s_ipolated r = None) df \<or> list_ex (\<lambda>g. g \<notin> set (map s_dt idf)) grid) \<and>
      (list_ex (\<lambda>r. s_epolated r = None) df \<or> list_ex (\<lambda>g. g \<notin> set (map s_dt idf)) grid))"

text \<open>
  The inner function \<open>resample_df\<close> of \<open>get_pp_weather\<close>: drop \<open>pp_id\<close>, reindex onto
  the grid \<open>[res_dt_start, res_dt_end + 5min)\<close> and interpolate the numeric columns.
  Its first argument is the frame that \<open>idf\<close> is a group of (\<open>idf\<close> itself when the
  frame is not grouped).
\<close>

definition resample_df ::
  "wrow list \<Rightarrow> instant \<Rightarrow> instant \<Rightarrow> wrow list \<Rightarrow> error + srow list" where
  "resample_df df res_dt_start res_dt_end idf =
     (let grid = date_range_closed_left res_dt_start (res_dt_end + P_FREQUENCY_D) P_FREQUENCY_D
      in case reindex s_dt idf grid of
           Inl e \<Rightarrow> Inl e
         | Inr cells \<Rightarrow>
             if grid \<noteq> [] \<and> object_columns_only df idf grid
             then Inl (TypeError ''Cannot interpolate with all object-dtype columns'')
             else
               Inr (map (\<lambda>(g, cell, feats).
                           \<lparr>s_pp_id = None, s_dt = g,
                            s_summary = Option.bind cell s_summary,
                            s_features = feats,
                            s_ipolated = Option.bind cell s_ipolated,
                            s_epolated = Option.bind cell s_epolated\<rparr>)
                      (zip grid (zip cells
                         (interpolate_time (\<lambda>f. None)
                            (zip grid (map (\<lambda>cell f. Option.bind cell (\<lambda>r. s_features r f))
                                         cells)))))))"

text \<open>
  \<open>groupby("pp_id").apply(resample_df).reset_index()\<close>: the plants in ascending order,
  each resampled on its own, the results concatenated with the plant as a column again.
\<close>

fun concat_frames :: "(error + 'a list) list \<Rightarrow> error + 'a list" where
  "concat_frames [] = Inr []"
| "concat_frames (Inl e # fs) = Inl e"
| "concat_frames (Inr xs # fs) =
     (case concat_frames fs of Inl e \<Rightarrow> Inl e | Inr ys \<Rightarrow> Inr (xs @ ys))"

definition resample_by_plant :: "instant \<Rightarrow> instant \<Rightarrow> wrow list \<Rightarrow> error + srow list" where
  "resample_by_plant res_dt_start res_dt_end df =
     concat_frames
       (map (\<lambda>p. case resample_df df res_dt_start res_dt_end
                           (filter (\<lambda>r. s_pp_id r = Some p) df) of
                    Inl e \<Rightarrow> Inl e
                  | Inr xs \<Rightarrow> Inr (map (\<lambda>r. r\<lparr>s_pp_id := Some p\<rparr>) xs))
            (sort (remdups (map (\<lambda>r. the (s_pp_id r)) df))))"

text \<open>
  The last record added when the query has no upper bound (lines 541-549): a copy of
  the last row at the last 5-minute boundary of the last day, flagged as extrapolated.
\<close>

definition add_last_record :: "wrow list \<Rightarrow> error + wrow list" where
  "add_last_record df =
     (if df = [] then Inl (KeyError ''nan'')
      else
        (let new_dt = freq_floor (date_latest_date_time (Max (set (map s_dt df)) div DAY))
                        P_FREQUENCY_D
         in Inr (df @ [(last df)\<lparr>s_dt := new_dt,
                                 r_src_dt := (case r_src_dt (last df) of
                                                None \<Rightarrow> None
                                              | Some s \<Rightarrow> Some (new_dt + (s_dt (last df) - s))),
                                 s_ipolated := Some False,
                                 s_epolated := Some True\<rparr>])))"

text \<open>The forward fill of \<open>summary\<close>, \<open>ipolated\<close> and \<open>epolated\<close> over the whole frame.\<close>

definition fix_non_interpolated :: "srow list \<Rightarrow> srow list" where
  "fix_non_interpolated df =
     map (\<lambda>(r, s, i, e). r\<lparr>s_summary := s, s_ipolated := i, s_epolated := e\<rparr>)
       (zip df (zip (ffill None (map s_summary df))
                    (zip (ffill None (map s_ipolated df)) (ffill None (map s_epolated df)))))"

text \<open>
  The block \<open>if interpolate_smooth:\<close> of \<open>get_pp_weather\<close>, on the fetched rows and the
  normalised bounds. \<open>has_pp\<close> says whether the frame has a \<open>pp_id\<close> column. A frame
  without rows has columns of object type only, which pandas refuses to interpolate;
  what the grouped variant does with no group depends on the pandas version and is
  modelled like the other. No property below is about a frame without rows.
\<close>

definition interpolate_smooth_block ::
  "bool \<Rightarrow> instant option \<Rightarrow> instant option \<Rightarrow> wrow list \<Rightarrow> error + srow list" where
  "interpolate_smooth_block has_pp dt_start dt_end df0 =
     (case (if dt_end = None then add_last_record df0 else Inr df0) of
        Inl e \<Rightarrow> Inl e
      | Inr df \<Rightarrow>
          if df = [] then Inl (TypeError ''Cannot interpolate with all object-dtype columns'')
          else
            (let res_dt_start = (case dt_start of Some t \<Rightarrow> t | None \<Rightarrow> Min (set (map s_dt df)));
                 res_dt_end = (case dt_end of Some t \<Rightarrow> t | None \<Rightarrow> Max (set (map s_dt df)))
             in case (if has_pp then resample_by_plant res_dt_start res_dt_end df
                      else resample_df df res_dt_start res_dt_end df) of
                  Inl e \<Rightarrow> Inl e
                | Inr res \<Rightarrow>
                    Inr (if dt_end \<noteq> None then butlast (fix_non_interpolated res)
                         else fix_non_interpolated res)))"

text \<open>
  \<open>SolarDBData.get_pp_weather\<close>, with \<open>columns\<close> at its default. \<open>ORDER BY dt, age\<close> is
  a stable sort of the table; a null \<open>src_dt\<close> does not pass \<open>src_dt <= src_dt_max\<close>.
\<close>

definition select_weather :: "bool \<Rightarrow> bool \<Rightarrow> weather_row \<Rightarrow> wrow" where
  "select_weather has_pp has_age r =
     \<lparr>s_pp_id = (if has_pp then Some (w_pp_id r) else None),
      s_dt = w_dt r,
      s_summary = w_summary r,
      s_features = w_features r,
      s_ipolated = w_ipolated r,
      s_epolated = w_epolated r,
      r_age = (if has_age then Some (w_age r) else None),
      r_src_dt = w_src_dt r\<rparr>"

definition get_pp_weather ::
  "weather_row list \<Rightarrow> PowerPlantIDT option \<Rightarrow> date_or_datetime option \<Rightarrow>
   date_or_datetime option \<Rightarrow> bool \<Rightarrow> int option \<Rightarrow> instant option \<Rightarrow> bool \<Rightarrow>
   error + weather_frame" where
  "get_pp_weather db pp dt_start dt_end all_indices src_age src_dt_max interpolate_smooth =
     (if interpolate_smooth \<and> src_age = None \<and> src_dt_max = None
      then Inl (RuntimeError ''Smooth interpolation is only supported for age-limited queries!'')
      else
        (let has_pp = (pp = None \<or> all_indices);
             has_age = (src_age = None \<and> src_dt_max = None);
             idx = (if has_pp then [''pp_id''] else []) @ [''dt'']
                   @ (if has_age then [''age''] else [])
         in case (case pp of None \<Rightarrow> Inr None
                  | Some i \<Rightarrow> (case get_pp_id i of Inl e \<Rightarrow> Inl e | Inr x \<Rightarrow> Inr (Some x))) of
              Inl e \<Rightarrow> Inl e
            | Inr who \<Rightarrow>
                (let start =
                       (case dt_start of None \<Rightarrow> None
                        | Some b \<Rightarrow>
                            (let t = (case b of DateTime t \<Rightarrow> t
                                      | Date d \<Rightarrow> date_earliest_date_time d)
                             in Some (if interpolate_smooth then freq_floor t S_FREQUENCY_D else t)));
                     end =
                       (case dt_end of None \<Rightarrow> None
                        | Some b \<Rightarrow>
                            (let t = (case b of DateTime t \<Rightarrow> t
                                      | Date d \<Rightarrow> date_earliest_date_time d)
                             in Some (if interpolate_smooth then freq_ceil t S_FREQUENCY_D else t)));
                     data = filter (\<lambda>r.
                              (case who of None \<Rightarrow> True | Some x \<Rightarrow> w_pp_id r = pp_id x) \<and>
                              (case start of None \<Rightarrow> True | Some t \<Rightarrow> t \<le> w_dt r) \<and>
                              (case end of None \<Rightarrow> True | Some t \<Rightarrow> w_dt r \<le> t) \<and>
                              (case src_age of None \<Rightarrow> True | Some a \<Rightarrow> w_age r = a) \<and>
                              (case src_dt_max of None \<Rightarrow> True
                               | Some m \<Rightarrow> (case w_src_dt r of None \<Rightarrow> False | Some s \<Rightarrow> s \<le> m)))
                              (sort_key (\<lambda>r. (w_dt r, w_age r)) db);
                     df0 = map (select_weather has_pp has_age) data;
                     df = (if src_dt_max \<noteq> None then groupby_dt_first df0 else df0)
                 in if interpolate_smooth then
                      (case interpolate_smooth_block has_pp start end df of
                         Inl e \<Rightarrow> Inl e
                       | Inr res \<Rightarrow> Inr (Smoothed idx res))
                    else Inr (Fetched idx df))))"

section \<open>Assembly of the weather features\<close>

text \<open>
  \<open>merge(left_index=True, right_index=True)\<close> is an inner join on the index
  \<open>(pp_id, dt)\<close>: a weather row is kept once for each exogenous row of its key.
\<close>

record feature_row =
  f_inv_id :: int
  f_weather :: srow
  f_exogenous :: exogenous_row

definition merge_index :: "srow list \<Rightarrow> exogenous_row list \<Rightarrow> (srow \<times> exogenous_row) list" where
  "merge_index left right =
     concat (map (\<lambda>w. map (\<lambda>x. (w, x))
                         (filter (\<lambda>x. s_pp_id w = Some (x_pp_id x) \<and> s_dt w = x_dt x) right))
             left)"

text \<open>
  \<open>SolarDBAssembler.prepare_weather\<close>. Every scheme fetches with smoothing, so the
  weather frame is a smoothed one.
\<close>

definition prepare_weather ::
  "weather_row list \<Rightarrow> exogenous_row list \<Rightarrow> PowerPlantIDT \<Rightarrow> date_or_datetime \<Rightarrow>
   date_or_datetime \<Rightarrow> string \<Rightarrow> int option \<Rightarrow> error + feature_row list" where
  "prepare_weather wdb xdb pp dt_start dt_end weather_scheme forecast_delta =
     (case get_pp_id pp of
        Inl e \<Rightarrow> Inl e
      | Inr x \<Rightarrow>
          (let start = convert_date_time dt_start;
               end = convert_date_time dt_end
           in case (if weather_scheme = ''measured'' then
                      get_pp_weather wdb (Some (PlantID x)) (Some (DateTime start))
                        (Some (DateTime end)) True (Some 0) None True
                    else if weather_scheme = ''forecast'' then
                      (if forecast_delta = None
                       then Inl (RuntimeError ''forecast_delta is not set!'')
                       else get_pp_weather wdb (Some (PlantID x)) (Some (DateTime start))
                              (Some (DateTime end)) True forecast_delta None True)
                    else if weather_scheme = ''realistic'' then
                      get_pp_weather wdb (Some (PlantID x)) (Some (DateTime start))
                        (Some (DateTime end)) True None (Some start) True
                    else Inl (RuntimeError ''Unknown weather sampling scheme'')) of
                Inl e \<Rightarrow> Inl e
              | Inr (Fetched idx df) \<Rightarrow> Inl (RuntimeError ''not a smoothed frame'')
              | Inr (Smoothed idx weather_df) \<Rightarrow>
                  (case get_pp_exogenous xdb (Some (PlantID x)) (Some (DateTime start))
                          (Some (DateTime end)) True of
                     Inl e \<Rightarrow> Inl e
                   | Inr exogenous_df \<Rightarrow>
                       Inr (map (\<lambda>(w, xr).
                                   \<lparr>f_inv_id = (case inv_id x of Some i \<Rightarrow> i | None \<Rightarrow> - 1),
                                    f_weather = w, f_exogenous = xr\<rparr>)
                              (merge_index weather_df (rows exogenous_df))))))"

section \<open>Evaluation of a prediction\<close>

text \<open>
  A frame handed to the evaluator: the names of its index levels, the names of its
  columns and its rows. \<open>e_pp_id\<close>, \<open>e_inv_id\<close> and \<open>e_dt\<close> are the values of the level
  or column of that name, where the frame has one; \<open>e_values\<close> are the other columns
  by name, None for a missing value. The index levels are named; the unnamed default
  index (of \<open>pd.DataFrame()\<close>) is no level.
\<close>

record erow =
  e_pp_id :: int
  e_inv_id :: int
  e_dt :: instant
  e_values :: "string \<Rightarrow> rat option"

record eframe =
  index_names :: "string list"
  column_names :: "string list"
  erows :: "erow list"

text \<open>
  \<open>prediction_df.reset_index().assign(pp_id=..., inv_id=...).set_index(["pp_id", "inv_id", "dt"])\<close>
  (lines 188-191 and 197-200). \<open>reset_index\<close> refuses an index level whose name is a
  column already; the arguments of \<open>assign\<close> read \<open>pp_id.pp_id\<close>, which only a
  \<open>PowerPlantID\<close> has; \<open>set_index\<close> needs a column \<open>dt\<close>.
\<close>

definition attach_identity :: "PowerPlantIDT option \<Rightarrow> eframe \<Rightarrow> error + eframe" where
  "attach_identity pp df =
     (if list_ex (\<lambda>n. n \<in> set (column_names df)) (index_names df)
      then Inl (ValueError ''cannot insert, already exists'')
      else
        (case (case pp of
                 None \<Rightarrow> Inr (0, 0)
               | Some (PlantID x) \<Rightarrow>
                   Inr (pp_id x, if is_whole_power_plant x then - 1 else the (inv_id x))
               | Some _ \<Rightarrow> Inl AttributeError) of
           Inl e \<Rightarrow> Inl e
         | Inr (p, i) \<Rightarrow>
             if ''dt'' \<in> set (index_names df @ column_names df)
             then Inr \<lparr>index_names = [''pp_id'', ''inv_id'', ''dt''],
                       column_names = filter (\<lambda>c. c \<notin> set [''pp_id'', ''inv_id'', ''dt''])
                                        (index_names df @ column_names df),
                       erows = map (\<lambda>r. r\<lparr>e_pp_id := p, e_inv_id := i\<rparr>) (erows df)\<rparr>
             else Inl (KeyError ''dt'')))"

text \<open>
  \<open>weather_df.set_index(prediction_df.index)\<close>: the rows of the weather frame take the
  index of the prediction frame, row by row. \<open>rename(columns={prediction_type: "power"})\<close>
  on the history frame.
\<close>

definition set_index_of :: "eframe \<Rightarrow> eframe \<Rightarrow> eframe" where
  "set_index_of df other =
     \<lparr>index_names = index_names other,
      column_names = column_names df,
      erows = map (\<lambda>(r, q). r\<lparr>e_pp_id := e_pp_id q, e_inv_id := e_inv_id q, e_dt := e_dt q\<rparr>)
                (zip (erows df) (erows other))\<rparr>"

definition rename_column :: "string \<Rightarrow> string \<Rightarrow> eframe \<Rightarrow> eframe" where
  "rename_column old new df =
     df\<lparr>column_names := map (\<lambda>c. if c = old then new else c) (column_names df),
        erows := map (\<lambda>r. r\<lparr>e_values := (\<lambda>c. if c = new then e_values r old
                                              else if c = old then None
                                              else e_values r c)\<rparr>) (erows df)\<rparr>"

text \<open>
  \<open>SolarDBEvaluator.evaluate_prediction\<close>. The statistics of \<open>_evaluate_power\<close>,
  \<open>_evaluate_weather\<close> and \<open>_evaluate_history\<close> are floating-point computations
  against the ground truth fetched from storage; they are the parameters \<open>ev_power\<close>,
  \<open>ev_weather\<close> and \<open>ev_history\<close>, called with the arguments of the source, and may
  raise. The dictionary of the result is the triple of their results, None for \<open>{ }\<close>.
  The conditions \<open>a not in x or b not in x\<close> and \<open>a != b or c != d\<close> of the source
  are written as the negation of a conjunction.

  \<open>evaluate_checks\<close> is the function from line 202 on, after both frames have got
  their index; \<open>evaluate_prediction\<close> is the whole.
\<close>

definition evaluate_checks ::
  "(PowerPlantID \<Rightarrow> eframe \<Rightarrow> instant \<Rightarrow> instant \<Rightarrow> string \<Rightarrow> error + 'p) \<Rightarrow>
   (PowerPlantID \<Rightarrow> eframe \<Rightarrow> instant \<Rightarrow> instant \<Rightarrow> error + 'w) \<Rightarrow>
   (PowerPlantID \<Rightarrow> eframe \<Rightarrow> instant \<Rightarrow> instant \<Rightarrow> error + 'h) \<Rightarrow>
   bool \<Rightarrow> bool \<Rightarrow> eframe \<Rightarrow> string \<Rightarrow> eframe \<Rightarrow> eframe \<Rightarrow>
   error + ('p \<times> 'w option \<times> 'h option)" where
  "evaluate_checks ev_power ev_weather ev_history has_history has_weather
       prediction_df prediction_type history_df1 weather_df0 =
     (if ''power'' \<notin> set (column_names prediction_df)
      then Inl (RuntimeError ''Provided prediction DataFrame does not contain power column!'')
      else if length (filter (\<lambda>r. e_values r ''power'' \<noteq> None) (erows prediction_df))
                \<noteq> length (erows prediction_df)
      then Inl (RuntimeError
                  ''Provided prediction DataFrame contains NaN or other invalid values!'')
      else
      (case (if has_weather
             then (if length (erows weather_df0) \<noteq> length (erows prediction_df)
                   then Inl (RuntimeError
                               ''Prediction and Weather DataFrames are not the same length'')
                   else Inr (set_index_of weather_df0 prediction_df))
             else Inr weather_df0) of
         Inl e \<Rightarrow> Inl e
       | Inr weather_df \<Rightarrow>
       (case (if has_history
              then (let history_df2 =
                          (if prediction_type \<in> set (column_names history_df1) \<and>
                              ''power'' \<notin> set (column_names history_df1)
                           then rename_column prediction_type ''power'' history_df1
                           else history_df1)
                    in if ''power'' \<notin> set (column_names history_df2)
                       then Inl (RuntimeError
                              ''Provided history DataFrame does not contain power column!'')
                       else Inr history_df2)
              else Inr history_df1) of
          Inl e \<Rightarrow> Inl e
        | Inr history_df \<Rightarrow>
        (let pp_ids = remdups (map e_pp_id (erows prediction_df));
             inv_ids = remdups (map e_inv_id (erows prediction_df))
         in if \<not> (length pp_ids = 1 \<and> length inv_ids = 1)
            then Inl (RuntimeError
                   ''Prediction DataFrame does not contain precisely on power plant'')
            else if ''dt'' \<notin> set (index_names prediction_df)
            then Inl (KeyError ''Level dt not found'')
            else
              (let ident = PowerPlantID (hd pp_ids) (Some (hd inv_ids));
                   dt_start = Min (set (map e_dt (erows prediction_df)));
                   dt_end = Max (set (map e_dt (erows prediction_df)));
                   dt_wth_start = (if has_weather then Min (set (map e_dt (erows weather_df)))
                                   else dt_start);
                   dt_wth_end = (if has_weather then Max (set (map e_dt (erows weather_df)))
                                 else dt_end)
               in if has_weather \<and> \<not> (dt_start = dt_wth_start \<and> dt_end = dt_wth_end)
                  then Inl (RuntimeError
                         ''Provided weather DataFrame does not cover the same date-time range'')
                  else
                    (case ev_power ident prediction_df dt_start dt_end prediction_type of
                       Inl e \<Rightarrow> Inl e
                     | Inr power_stats \<Rightarrow>
                       (case (if has_weather
                              then (case ev_weather ident weather_df dt_start dt_end of
                                      Inl e \<Rightarrow> Inl e | Inr ws \<Rightarrow> Inr (Some ws))
                              else Inr None) of
                          Inl e \<Rightarrow> Inl e
                        | Inr weather_stats \<Rightarrow>
                          (case (if has_history
                                 then (case ev_history ident history_df dt_start dt_end of
                                         Inl e \<Rightarrow> Inl e | Inr hs \<Rightarrow> Inr (Some hs))
                                 else Inr None) of
                             Inl e \<Rightarrow> Inl e
                           | Inr history_stats \<Rightarrow>
                               Inr (power_stats, weather_stats, history_stats)))))))))"

definition evaluate_prediction ::
  "(PowerPlantID \<Rightarrow> eframe \<Rightarrow> instant \<Rightarrow> instant \<Rightarrow> string \<Rightarrow> error + 'p) \<Rightarrow>
   (PowerPlantID \<Rightarrow> eframe \<Rightarrow> instant \<Rightarrow> instant \<Rightarrow> error + 'w) \<Rightarrow>
   (PowerPlantID \<Rightarrow> eframe \<Rightarrow> instant \<Rightarrow> instant \<Rightarrow> error + 'h) \<Rightarrow>
   eframe \<Rightarrow> string \<Rightarrow> eframe \<Rightarrow> eframe \<Rightarrow> PowerPlantIDT option \<Rightarrow>
   error + ('p \<times> 'w option \<times> 'h option)" where
  "evaluate_prediction ev_power ev_weather ev_history
       prediction_df0 prediction_type history_df0 weather_df0 pp =
     (let has_history = (0 < length (erows history_df0));
          has_weather = (0 < length (erows weather_df0))
      in
      case (if \<not> (''pp_id'' \<in> set (index_names prediction_df0) \<and>
                    ''inv_id'' \<in> set (index_names prediction_df0))
            then (if pp = None \<and> 0 < length (erows prediction_df0)
                  then Inl (RuntimeError ''Prediction frame is missing indices'')
                  else attach_identity pp prediction_df0)
            else Inr prediction_df0) of
        Inl e \<Rightarrow> Inl e
      | Inr prediction_df \<Rightarrow>
      (case (if \<not> (''pp_id'' \<in> set (index_names history_df0) \<and>
                     ''inv_id'' \<in> set (index_names history_df0))
             then (if pp = None \<and> has_history
                   then Inl (RuntimeError ''History frame is missing indices'')
                   else attach_identity pp prediction_df)
             else Inr history_df0) of
         Inl e \<Rightarrow> Inl e
       | Inr history_df1 \<Rightarrow>
           evaluate_checks ev_power ev_weather ev_history has_history has_weather
             prediction_df prediction_type history_df1 weather_df0))"

text \<open>
  Frames of the evaluator fixtures: \<open>pd.DataFrame()\<close>; a prediction indexed by \<open>dt\<close>
  alone whose one power value is missing; a prediction of plant 1 with one row at 00:00;
  a history of plant 1 with the two rows of 23:50 and 23:55; a weather frame with one
  row a day later.
\<close>

definition empty_frame :: eframe where
  "empty_frame = \<lparr>index_names = [], column_names = [], erows = []\<rparr>"


definition one_row_prediction :: eframe where
  "one_row_prediction =
     \<lparr>index_names = [''pp_id'', ''inv_id'', ''dt''], column_names = [''power''],
      erows = [\<lparr>e_pp_id = 1, e_inv_id = - 1, e_dt = 18628 * DAY,
                e_values = (\<lambda>c. if c = ''power'' then Some 5 else None)\<rparr>]\<rparr>"


definition next_day_weather :: eframe where
  "next_day_weather =
     \<lparr>index_names = [''pp_id'', ''dt''], column_names = [''temp''],
      erows = [\<lparr>e_pp_id = 1, e_inv_id = 0, e_dt = 18629 * DAY,
                e_values = (\<lambda>c. if c = ''temp'' then Some 10 else None)\<rparr>]\<rparr>"


section \<open>Fixtures\<close>

text \<open>
  \<open>T0\<close> is 2021-01-01T00:00:00 (18628 days after the epoch). \<open>blank_power\<close> is a power
  record with a key and no values.
\<close>

definition T0 :: instant where
  "T0 = 18628 * DAY"

definition blank_power :: "int \<Rightarrow> int \<Rightarrow> instant \<Rightarrow> power_row" where
  "blank_power p i t =
     \<lparr>p_pp_id = p, p_inv_id = i, p_dt = t,
      p_power_ac = None, p_power_dc = None,
      p_energy_hour = None, p_energy_day = None, p_energy_week = None, p_energy_month = None,
      p_ipolated = None, p_epolated = None\<rparr>"

definition blank_exogenous :: "int \<Rightarrow> instant \<Rightarrow> exogenous_row" where
  "blank_exogenous p t =
     \<lparr>x_pp_id = p, x_dt = t,
      x_sun_altitude = None, x_sun_azimuth = None, x_sun_irradiance = None,
      x_status = None, x_error = None, x_clear = None\<rparr>"

text \<open>
  \<open>weather_record p t a s v\<close> is the record of plant \<open>p\<close> at \<open>t\<close> with age \<open>a\<close>, issued
  \<open>a\<close> hours before, with summary \<open>s\<close>, temperature \<open>v\<close> and no other value.
\<close>

definition weather_record ::
  "int \<Rightarrow> instant \<Rightarrow> int \<Rightarrow> string option \<Rightarrow> rat option \<Rightarrow> weather_row" where
  "weather_record p t a s v =
     \<lparr>w_pp_id = p, w_dt = t, w_age = a,
      w_src_dt = Some (t - a * S_FREQUENCY_D),
      w_summary = s,
      w_features = (\<lambda>f. if f = temp then v else None),
      w_ipolated = Some False, w_epolated = Some False\<rparr>"

text \<open>The noon of 2021-01-01, the one record of each table in the fixture of C4.\<close>

definition noon :: instant where
  "noon = T0 + 720 * MINUTE"

text \<open>
  The fixture of C2: plant 1 measured 10 degrees at 00:00 and 12 degrees at 01:00; the
  exogenous table has a record every 5 minutes from 00:00 to 01:00.
\<close>

definition two_anchors :: "weather_row list" where
  "two_anchors =
     [weather_record 1 T0 0 None (Some 10),
      weather_record 1 (T0 + 60 * MINUTE) 0 None (Some 12)]"

definition exogenous_hour :: "exogenous_row list" where
  "exogenous_hour = map (\<lambda>k. blank_exogenous 1 (T0 + int k * P_FREQUENCY_D)) [0..<13]"

text \<open>
  The fixture of C6: at 00:00 plant 1 has a measurement (age 0) without temperature and
  a forecast of age 1 with temperature 5.
\<close>

definition two_ages :: "weather_row list" where
  "two_ages =
     [weather_record 1 T0 0 (Some ''clear'') None,
      weather_record 1 T0 1 (Some ''rain'') (Some 5)]"

text \<open>
  The fixture of C7: plant 1 is measured at 00:00 and 01:00, plant 2 at 01:00 only.
\<close>

definition two_plants :: "weather_row list" where
  "two_plants =
     [weather_record 1 T0 0 (Some ''clear'') (Some 10),
      weather_record 1 (T0 + 60 * MINUTE) 0 (Some ''clear'') (Some 12),
      weather_record 2 (T0 + 60 * MINUTE) 0 (Some ''rain'') (Some 3)]"

text \<open>
  Fixtures of C1: an hourly series of plant 1 at 00:30 and 01:30, and one at 00:00 and
  01:00 whose records have no value at all (no \<open>src_dt\<close>, no numeric value).
\<close>

definition half_past_anchors :: "weather_row list" where
  "half_past_anchors =
     [weather_record 1 (T0 + 30 * MINUTE) 0 None (Some 10),
      weather_record 1 (T0 + 90 * MINUTE) 0 None (Some 12)]"

definition null_anchors :: "weather_row list" where
  "null_anchors =
     [(weather_record 1 T0 0 None None)\<lparr>w_src_dt := None\<rparr>,
      (weather_record 1 (T0 + 60 * MINUTE) 0 None None)\<lparr>w_src_dt := None\<rparr>]"

section \<open>Properties of the identity\<close>

lemma PowerPlantID_lt_by_plant:
  "a < b \<Longrightarrow> PowerPlantID_lt (PowerPlantID a i) (PowerPlantID b j)"
  by (simp add: PowerPlantID_lt_def)

lemma PowerPlantID_lt_whole_before_inverter:
  "PowerPlantID_lt (PowerPlantID p None) (PowerPlantID p (Some i))"
  by (simp add: PowerPlantID_lt_def)

lemma PowerPlantID_lt_inverters:
  "PowerPlantID_lt (PowerPlantID p (Some i)) (PowerPlantID p (Some j)) \<longleftrightarrow> i < j"
  by (simp add: PowerPlantID_lt_def)

lemma PowerPlantID_lt_inverter_irrefl:
  "\<not> PowerPlantID_lt (PowerPlantID p (Some i)) (PowerPlantID p (Some i))"
  by (simp add: PowerPlantID_lt_def)

lemma PowerPlantID_lt_whole_refl:
  "PowerPlantID_lt (PowerPlantID p None) (PowerPlantID p None)"
  by (simp add: PowerPlantID_lt_def)

text \<open>
  C3. The claim asks for a strict order: no identity is less than itself. On the
  whole-plant identity of plant 1 the comparison of the source answers True, while
  \<open>__eq__\<close> holds of the same pair: the branch \<open>self._inv_id is None\<close> does not look at
  the other side.
\<close>

theorem C3_whole_plant_less_than_itself:
  "PowerPlantID_lt (PowerPlantID 1 None) (PowerPlantID 1 None) = True \<and>
   PowerPlantID_eq (PowerPlantID 1 None) (PowerPlantID 1 None) = True"
  by (simp add: PowerPlantID_lt_def PowerPlantID_eq_def)

text \<open>
  C5, as the claim states it, fails at the bare integer 7: the resolved identity carries
  the inverter id -1, \<open>is_whole_power_plant\<close> is False of it and it differs from
  \<open>PowerPlantID(7)\<close>.
\<close>

theorem C5_bare_integer_counterexample:
  "get_pp_id (PlantInt 7) = Inr (PowerPlantID 7 (Some (- 1))) \<and>
   \<not> is_whole_power_plant (PowerPlantID 7 (Some (- 1))) \<and>
   PowerPlantID 7 (Some (- 1)) \<noteq> PowerPlantID 7 None"
  by (simp add: is_whole_power_plant_def)

text \<open>
  C5, amended. A bare integer \<open>p\<close> and the one-element sequence \<open>[p]\<close> resolve to the
  identity of plant \<open>p\<close> with the storage sentinel -1 as its inverter id; this identity
  is not the one \<open>is_whole_power_plant\<close> recognises and is not equal to
  \<open>PowerPlantID(p)\<close>. An identity that is already resolved is returned unchanged.
\<close>

theorem C5_get_pp_id_sentinel:
  "get_pp_id (PlantInt p) = Inr (PowerPlantID p (Some (- 1))) \<and>
   get_pp_id (PlantSeq [p]) = Inr (PowerPlantID p (Some (- 1))) \<and>
   \<not> is_whole_power_plant (PowerPlantID p (Some (- 1))) \<and>
   \<not> PowerPlantID_eq (PowerPlantID p (Some (- 1))) (PowerPlantID p None) \<and>
   get_pp_id (PlantID x) = Inr x"
  by (simp add: is_whole_power_plant_def PowerPlantID_eq_def)

section \<open>Properties of the power history\<close>

lemma distinct_dt_of_key:
  assumes d: "distinct (map (\<lambda>r. (p_pp_id r, p_inv_id r, p_dt r)) xs)"
    and same: "\<forall>r \<in> set xs. p_pp_id r = a \<and> p_inv_id r = b"
  shows "distinct (map p_dt xs)"
proof -
  from d have dx: "distinct xs" and inj: "inj_on (\<lambda>r. (p_pp_id r, p_inv_id r, p_dt r)) (set xs)"
    by (simp_all only: distinct_map)
  have "inj_on p_dt (set xs)"
  proof (rule inj_onI)
    fix r r' assume r: "r \<in> set xs" and r': "r' \<in> set xs" and e: "p_dt r = p_dt r'"
    from same r r' have "p_pp_id r = p_pp_id r'" "p_inv_id r = p_inv_id r'" by simp_all
    with e have k: "(p_pp_id r, p_inv_id r, p_dt r) = (p_pp_id r', p_inv_id r', p_dt r')" by simp
    from inj k r r' show "r = r'" by (rule inj_onD)
  qed
  with dx show ?thesis by (simp only: distinct_map)
qed


lemma find_dt_None:
  "\<forall>s \<in> set xs. p_dt s \<noteq> g \<Longrightarrow> find (\<lambda>r. p_dt r = g) xs = None"
  by (simp add: find_None_iff)

lemma set_iloc_upto: "set (iloc_upto n xs) \<subseteq> set xs"
  by (auto simp: iloc_upto_def dest: in_set_takeD)

lemma distinct_iloc_upto: "distinct (map f xs) \<Longrightarrow> distinct (map f (iloc_upto n xs))"
  by (simp add: iloc_upto_def take_map[symmetric])

lemma date_range_closed_left_steps:
  assumes "0 < f"
  shows "date_range_closed_left s (s + int n * f) f = map (\<lambda>k. s + int k * f) [0..<n]"
proof -
  have "(s + int n * f - s) div f + 1 = int n + 1" using assms by simp
  then have "nat ((s + int n * f - s) div f + 1) = Suc n" by simp
  then have dr: "date_range s (s + int n * f) f = map (\<lambda>k. s + int k * f) [0..<Suc n]"
    unfolding date_range_def by simp
  have l: "last (map (\<lambda>k. s + int k * f) [0..<Suc n]) = s + int n * f" by simp
  have ne: "map (\<lambda>k. s + int k * f) [0..<Suc n] \<noteq> []" by simp
  have bl: "butlast (map (\<lambda>k. s + int k * f) [0..<Suc n]) = map (\<lambda>k. s + int k * f) [0..<n]"
    by simp
  show ?thesis unfolding date_range_closed_left_def dr Let_def
    using l ne bl by simp
qed

lemma distinct_map_sort_key:
  "distinct (map k (sort_key f xs)) = distinct (map k xs)"
proof -
  have "mset (map k (sort_key f xs)) = mset (map k xs)" by simp
  then show ?thesis by (rule mset_eq_imp_distinct_iff)
qed

lemma P_FREQUENCY_D_pos: "0 < P_FREQUENCY_D"
  by (simp add: P_FREQUENCY_D_def MINUTE_def)

lemma history_window_rows:
  assumes inv: "inv_id x = Some i"
  shows "get_pp_power db (Some (PlantID x)) (Some (DateTime a)) (Some (DateTime b)) True =
         Inr \<lparr>idx_columns = [''pp_id'', ''inv_id'', ''dt''],
              rows = filter (\<lambda>r. (p_pp_id r = pp_id x \<and> p_inv_id r = i) \<and> a \<le> p_dt r \<and> p_dt r \<le> b)
                       (sort_key p_dt db)\<rparr>"
  using inv by (simp add: get_pp_power_def is_whole_power_plant_def)

lemma zip_map_same: "map h (zip xs (map g xs)) = map (\<lambda>a. h (a, g a)) xs"
  by (induction xs) simp_all

text \<open>
  What \<open>prepare_history\<close> does where the fetched rows cannot share a timestamp: for
  an identity with an inverter id, over a power table whose keys \<open>(pp_id, inv_id, dt)\<close>
  are unique, it returns exactly \<open>n\<close> rows without fallback, at the 5-minute timestamps
  \<open>start - n * 5min, ..., start - 5min\<close>; at a grid timestamp with no stored power
  record of that identity the numeric columns are 0, \<open>ipolated\<close> is False and
  \<open>epolated\<close> is True.
\<close>

theorem prepare_history_grid:
  assumes res: "get_pp_id ident = Inr x"
    and inv: "inv_id x = Some i"
    and key: "distinct (map (\<lambda>r. (p_pp_id r, p_inv_id r, p_dt r)) db)"
  shows "\<exists>hist. prepare_history db ident start (int n) False = Inr hist \<and>
           length (rows hist) = n \<and>
           map p_dt (rows hist) =
             map (\<lambda>k. convert_date_time start - P_FREQUENCY_D * int n + int k * P_FREQUENCY_D) [0..<n] \<and>
           (\<forall>r \<in> set (rows hist).
              (\<forall>s \<in> set db. p_pp_id s = pp_id x \<and> p_inv_id s = i \<longrightarrow> p_dt s \<noteq> p_dt r) \<longrightarrow>
              p_power_ac r = Some 0 \<and> p_power_dc r = Some 0 \<and>
              p_energy_hour r = Some 0 \<and> p_energy_day r = Some 0 \<and>
              p_energy_week r = Some 0 \<and> p_energy_month r = Some 0 \<and>
              p_ipolated r = Some False \<and> p_epolated r = Some True)"
proof -
  define t1 where "t1 = convert_date_time start"
  define t0 where "t0 = t1 - P_FREQUENCY_D * int n"
  define grid where "grid = map (\<lambda>k. t0 + int k * P_FREQUENCY_D) [0..<n]"
  define sel where "sel = filter (\<lambda>r. (p_pp_id r = pp_id x \<and> p_inv_id r = i) \<and> t0 \<le> p_dt r \<and> p_dt r \<le> t1)
                       (sort_key p_dt db)"
  define taken where "taken = iloc_upto (int n) sel"
  define hist where "hist = \<lparr>idx_columns = [''pp_id'', ''inv_id'', ''dt''],
      rows = map (\<lambda>g. history_row x g (find (\<lambda>r. p_dt r = g) taken)) grid\<rparr>"
  have t1: "t1 = t0 + int n * P_FREQUENCY_D" by (simp add: t0_def)
  have fi: "prepare_frame_index P_FREQUENCY_D t0 t1 = grid"
    unfolding prepare_frame_index_def t1 grid_def
    by (rule date_range_closed_left_steps[OF P_FREQUENCY_D_pos])
  have "distinct (map (\<lambda>r. (p_pp_id r, p_inv_id r, p_dt r)) sel)"
    unfolding sel_def using key by (simp add: distinct_map_filter distinct_map_sort_key)
  moreover have "\<forall>r \<in> set sel. p_pp_id r = pp_id x \<and> p_inv_id r = i"
    by (simp add: sel_def)
  ultimately have "distinct (map p_dt sel)" by (rule distinct_dt_of_key)
  then have dt: "distinct (map p_dt taken)" unfolding taken_def by (rule distinct_iloc_upto)
  have re: "reindex p_dt taken grid = Inr (map (\<lambda>g. find (\<lambda>r. p_dt r = g) taken) grid)"
    using dt by (simp add: reindex_def)
  have pw: "get_pp_power db (Some (PlantID x)) (Some (DateTime t0)) (Some (DateTime t1)) True =
            Inr \<lparr>idx_columns = [''pp_id'', ''inv_id'', ''dt''], rows = sel\<rparr>"
    unfolding sel_def by (rule history_window_rows[OF inv])
  have run: "prepare_history db ident start (int n) False = Inr hist"
    unfolding prepare_history_def Let_def res t1_def[symmetric] t0_def[symmetric]
    by (simp add: fi pw taken_def[symmetric] re hist_def zip_map_same)
  have len: "length (rows hist) = n" by (simp add: hist_def grid_def)
  have dts: "map p_dt (rows hist) = grid"
    by (simp add: hist_def history_row_def comp_def)
  have zero: "\<forall>r \<in> set (rows hist).
              (\<forall>s \<in> set db. p_pp_id s = pp_id x \<and> p_inv_id s = i \<longrightarrow> p_dt s \<noteq> p_dt r) \<longrightarrow>
              p_power_ac r = Some 0 \<and> p_power_dc r = Some 0 \<and>
              p_energy_hour r = Some 0 \<and> p_energy_day r = Some 0 \<and>
              p_energy_week r = Some 0 \<and> p_energy_month r = Some 0 \<and>
              p_ipolated r = Some False \<and> p_epolated r = Some True"
  proof (intro ballI impI)
    fix r
    assume r: "r \<in> set (rows hist)"
      and none: "\<forall>s \<in> set db. p_pp_id s = pp_id x \<and> p_inv_id s = i \<longrightarrow> p_dt s \<noteq> p_dt r"
    from r have "r \<in> (\<lambda>g. history_row x g (find (\<lambda>r. p_dt r = g) taken)) ` set grid"
      by (simp add: hist_def)
    then obtain g where rg: "r = history_row x g (find (\<lambda>r. p_dt r = g) taken)"
      by (rule imageE)
    have pg: "p_dt r = g" by (simp add: rg history_row_def)
    have sub: "set taken \<subseteq> set sel" unfolding taken_def by (rule set_iloc_upto)
    have "\<forall>s \<in> set taken. p_dt s \<noteq> g"
    proof
      fix s assume "s \<in> set taken"
      with sub have "s \<in> set sel" by (rule subsetD)
      then have "s \<in> set db" "p_pp_id s = pp_id x \<and> p_inv_id s = i" by (simp_all add: sel_def)
      with none pg show "p_dt s \<noteq> g" by simp
    qed
    then have "find (\<lambda>r. p_dt r = g) taken = None" by (rule find_dt_None)
    then show "p_power_ac r = Some 0 \<and> p_power_dc r = Some 0 \<and>
              p_energy_hour r = Some 0 \<and> p_energy_day r = Some 0 \<and>
              p_energy_week r = Some 0 \<and> p_energy_month r = Some 0 \<and>
              p_ipolated r = Some False \<and> p_epolated r = Some True"
      by (simp add: rg history_row_def fillna_def)
  qed
  have dts': "map p_dt (rows hist) =
      map (\<lambda>k. convert_date_time start - P_FREQUENCY_D * int n + int k * P_FREQUENCY_D) [0..<n]"
    unfolding dts grid_def t0_def t1_def by (rule refl)
  show ?thesis
    by (rule exI[of _ hist]) (intro conjI; fact)
qed

text \<open>
  The scenario of the specification: over an empty power table, start 2021-01-01T00:00
  and count 3 give the rows at 23:45, 23:50 and 23:55 of the previous day, zero-filled
  and flagged.
\<close>

theorem prepare_history_empty_table:
  "get_pp_id (PlantInt 1) = Inr (PowerPlantID 1 (Some (- 1))) \<and>
   (\<exists>hist. prepare_history [] (PlantInt 1) (DateTime T0) 3 False = Inr hist \<and>
      map p_dt (rows hist) = [T0 - 15 * MINUTE, T0 - 10 * MINUTE, T0 - 5 * MINUTE] \<and>
      map p_power_ac (rows hist) = [Some 0, Some 0, Some 0] \<and>
      map p_ipolated (rows hist) = [Some False, Some False, Some False] \<and>
      map p_epolated (rows hist) = [Some True, Some True, Some True])"
proof -
  have res: "get_pp_id (PlantInt 1) = Inr (PowerPlantID 1 (Some (- 1)))" by simp
  have inv: "inv_id (PowerPlantID 1 (Some (- 1))) = Some (- 1)" by simp
  have key: "distinct (map (\<lambda>r. (p_pp_id r, p_inv_id r, p_dt r)) [])" by simp
  from prepare_history_grid[OF res inv key, of "DateTime T0" 3]
  obtain hist where run: "prepare_history [] (PlantInt 1) (DateTime T0) (int 3) False = Inr hist"
    and len: "length (rows hist) = 3"
    and dts: "map p_dt (rows hist) =
       map (\<lambda>k. convert_date_time (DateTime T0) - P_FREQUENCY_D * int 3 + int k * P_FREQUENCY_D) [0..<3]"
    and zero: "\<forall>r \<in> set (rows hist).
       (\<forall>s \<in> set ([]::power_row list). p_pp_id s = pp_id (PowerPlantID 1 (Some (- 1))) \<and> p_inv_id s = - 1 \<longrightarrow> p_dt s \<noteq> p_dt r) \<longrightarrow>
              p_power_ac r = Some 0 \<and> p_power_dc r = Some 0 \<and>
              p_energy_hour r = Some 0 \<and> p_energy_day r = Some 0 \<and>
              p_energy_week r = Some 0 \<and> p_energy_month r = Some 0 \<and>
              p_ipolated r = Some False \<and> p_epolated r = Some True"
    by blast
  have up: "[0..<3] = [0, Suc 0, Suc (Suc 0)]" by (simp add: upt_rec numeral_3_eq_3)
  have d: "map p_dt (rows hist) = [T0 - 15 * MINUTE, T0 - 10 * MINUTE, T0 - 5 * MINUTE]"
    unfolding dts up by (simp add: convert_date_time_def P_FREQUENCY_D_def)
  have ac: "map p_power_ac (rows hist) = replicate 3 (Some 0)"
    using zero len by (intro replicate_eqI) auto
  have ip: "map p_ipolated (rows hist) = replicate 3 (Some False)"
    using zero len by (intro replicate_eqI) auto
  have ep: "map p_epolated (rows hist) = replicate 3 (Some True)"
    using zero len by (intro replicate_eqI) auto
  from run d ac ip ep res show ?thesis by (simp add: numeral_3_eq_3)
qed

text \<open>
  C8. The claim is for every identity. For the whole-plant identity \<open>PowerPlantID(1)\<close>,
  which \<open>prepare_history\<close> provides for (it writes -1 for a missing inverter id into
  the result), start 2021-01-01T00:00 and count 2, over a table with the aggregate
  record and the record of inverter 0 of plant 1 at 23:50: no inverter filter is
  applied, both records are fetched, they share their timestamp, and \<open>reindex\<close> raises.
  No row is returned.
\<close>

theorem C8_whole_plant_history_raises:
  "prepare_history [blank_power 1 (- 1) (T0 - 10 * MINUTE), blank_power 1 0 (T0 - 10 * MINUTE)]
     (PlantID (PowerPlantID 1 None)) (DateTime T0) 2 False =
   Inl (ValueError ''cannot reindex on an axis with duplicate labels'')"
  by (simp add: prepare_history_def get_pp_power_def is_whole_power_plant_def
      convert_date_time_def P_FREQUENCY_D_def blank_power_def iloc_upto_def reindex_def
      T0_def DAY_def MINUTE_def Let_def)

section \<open>Properties of the range queries\<close>

lemmas weather_defs = get_pp_weather_def select_weather_def group_first_def groupby_dt_first_def
  weather_record_def Let_def freq_floor_def freq_ceil_def S_FREQUENCY_D_def P_FREQUENCY_D_def
  T0_def DAY_def MINUTE_def date_earliest_date_time_def date_latest_date_time_def

text \<open>
  C4. Each table holds one record of plant 1, at noon of 2021-01-01, which lies between
  the start-of-day and the end-of-day instant of that date. With the bare date
  2021-01-01 as \<open>dt_end\<close> and no other bound, each of the three fetch operations
  returns no row: the upper bound is normalised with \<open>date_earliest_date_time\<close>, to
  00:00:00 of the date, and the record of noon is filtered out.
\<close>

theorem C4_date_end_bound_is_start_of_day:
  "date_earliest_date_time 18628 \<le> noon \<and> noon \<le> date_latest_date_time 18628 \<and>
   get_pp_power [blank_power 1 (- 1) noon] None None (Some (Date 18628)) False =
     Inr \<lparr>idx_columns = [''pp_id'', ''inv_id'', ''dt''], rows = []\<rparr> \<and>
   get_pp_weather [weather_record 1 noon 0 None None] None None (Some (Date 18628))
       False None None False =
     Inr (Fetched [''pp_id'', ''dt'', ''age''] []) \<and>
   get_pp_exogenous [blank_exogenous 1 noon] None None (Some (Date 18628)) False =
     Inr \<lparr>idx_columns = [''pp_id'', ''dt''], rows = []\<rparr>"
  by (simp add: noon_def get_pp_power_def get_pp_exogenous_def blank_power_def
      blank_exogenous_def weather_defs)

text \<open>
  C6. At 00:00 plant 1 has a measurement (age 0) without temperature and a forecast of
  age 1 with temperature 5; with the cutoff 00:00 both pass the filter on \<open>src_dt\<close>.
  The claim says that the returned row is the record of the smallest age. The one row
  returned has the summary and the \<open>src_dt\<close> of the record of age 0 and the
  temperature of the record of age 1: \<open>groupby("dt").first()\<close> takes the first value of
  each column that is not null. The row is neither of the two records.
\<close>

theorem C6_first_skips_null_columns:
  "get_pp_weather two_ages (Some (PlantInt 1)) None None False None (Some T0) False =
     Inr (Fetched [''dt'']
       [\<lparr>s_pp_id = None, s_dt = T0, s_summary = Some ''clear'',
         s_features = (\<lambda>f. if f = temp then Some 5 else None),
         s_ipolated = Some False, s_epolated = Some False,
         r_age = None, r_src_dt = Some T0\<rparr>])"
  by (simp add: two_ages_def weather_defs fun_eq_iff)

section \<open>Properties of the smoothing resample\<close>

text \<open>
  C7. All plants are fetched from 00:00 to 01:00 with smoothing. The frame has the 13
  rows of plant 1 and, after the last row is dropped, 12 rows of plant 2, from 00:00 to
  00:55. Plant 2 has no record before 01:00, yet each of its rows carries the summary
  of plant 1: the forward fill runs over the concatenated frame and takes the value of
  the last row of plant 1 into the rows of plant 2.
\<close>

theorem C7_forward_fill_crosses_plants:
  "(case get_pp_weather two_plants None (Some (DateTime T0)) (Some (DateTime (T0 + 60 * MINUTE)))
          False (Some 0) None True of
      Inr (Smoothed idx df) \<Rightarrow>
        idx = [''pp_id'', ''dt''] \<and>
        map (\<lambda>r. (s_pp_id r, s_summary r)) df =
          replicate 13 (Some 1, Some ''clear'') @ replicate 12 (Some 2, Some ''clear'')
    | _ \<Rightarrow> False)"
  by code_simp

section \<open>Properties of the weather features\<close>

text \<open>
  C2, as the claim states it, fails on the fixture that has the two weather rows and
  nothing else: the weather frame is joined with the exogenous frame on its index, and
  without exogenous records no row is left.
\<close>

theorem C2_no_exogenous_counterexample:
  "map_sum id length (prepare_weather two_anchors [] (PlantInt 1) (DateTime T0)
          (DateTime (T0 + 60 * MINUTE)) ''measured'' None) = Inr 0"
  by code_simp

text \<open>
  C2, amended. On the fixture with the two weather rows and an exogenous record of the
  plant at every 5 minutes from 00:00 to 01:00, \<open>prepare_weather\<close> with the scheme
  \<open>measured\<close> returns exactly 12 rows, at 00:00, 00:05, ..., 00:55; the temperature
  of the row \<open>k\<close> is \<open>10 + k / 6\<close>, linear in elapsed time, from 10 to \<open>71 / 6\<close>
  (11.8333...), and every value after the first lies strictly between 10 and 12.
\<close>

theorem C2_measured_temperature_linear:
  "(case prepare_weather two_anchors exogenous_hour (PlantInt 1) (DateTime T0)
          (DateTime (T0 + 60 * MINUTE)) ''measured'' None of
      Inr df \<Rightarrow>
        length df = 12 \<and>
        map (\<lambda>r. (s_dt (f_weather r), s_features (f_weather r) temp)) df =
          map (\<lambda>k. (T0 + int k * (5 * MINUTE), Some (10 + of_nat k / 6))) [0..<12] \<and>
        s_features (f_weather (last df)) temp = Some (71 / 6) \<and>
        list_all (\<lambda>r. case s_features (f_weather r) temp of
                         Some v \<Rightarrow> 10 < v \<and> v < 12 | None \<Rightarrow> False) (tl df)
    | Inl e \<Rightarrow> False)"
  by code_simp

section \<open>The grid of the smoothing resample\<close>

lemma length_ffill: "length (ffill prev xs) = length xs"
  by (induction prev xs rule: ffill.induct) simp_all

lemma length_interpolate_time: "length (interpolate_time prev xs) = length xs"
  by (induction prev xs rule: interpolate_time.induct) simp_all

lemma map_dt_zip_rows:
  assumes "length ys = length xs" and "\<And>a b. k (h (a, b)) = a"
  shows "map k (map h (zip xs ys)) = xs"
  using assms(1)
proof (induction xs arbitrary: ys)
  case Nil
  then show ?case by simp
next
  case (Cons a xs)
  then obtain b ys' where "ys = b # ys'" by (cases ys) simp_all
  with Cons assms(2) show ?case by simp
qed

lemma s_dt_fix_non_interpolated: "map s_dt (fix_non_interpolated df) = map s_dt df"
proof -
  have "map (s_dt \<circ> (\<lambda>(r, s, i, e). r\<lparr>s_summary := s, s_ipolated := i, s_epolated := e\<rparr>))
         (zip df (zip (ffill None (map s_summary df))
                    (zip (ffill None (map s_ipolated df)) (ffill None (map s_epolated df)))))
        = map (s_dt \<circ> fst) (zip df (zip (ffill None (map s_summary df))
                    (zip (ffill None (map s_ipolated df)) (ffill None (map s_epolated df)))))"
    by (rule map_cong) auto
  also have "\<dots> = map s_dt (map fst (zip df (zip (ffill None (map s_summary df))
                    (zip (ffill None (map s_ipolated df)) (ffill None (map s_epolated df))))))"
    by simp
  also have "\<dots> = map s_dt df"
    by (simp add: map_fst_zip length_ffill)
  finally show ?thesis by (simp add: fix_non_interpolated_def)
qed

lemma feature_in_WEATHER_FEATURES: "f \<in> set WEATHER_FEATURES"
  by (cases f) (simp_all add: WEATHER_FEATURES_def)

lemma valued_not_object_columns_only:
  assumes q: "q \<in> set df"
    and v: "r_src_dt q \<noteq> None \<or> (\<exists>f. s_features q f \<noteq> None)"
  shows "\<not> object_columns_only df idf grid"
proof
  assume o: "object_columns_only df idf grid"
  from o q have s: "r_src_dt q = None"
    by (simp add: object_columns_only_def list_all_iff)
  from o q have "list_all (\<lambda>f. s_features q f = None) WEATHER_FEATURES"
    by (simp add: object_columns_only_def list_all_iff)
  then have "\<forall>f. s_features q f = None"
    using feature_in_WEATHER_FEATURES by (simp add: list_all_iff)
  with s v show False by simp
qed

lemma resample_df_grid:
  assumes "distinct (map s_dt (idf::wrow list))"
    and typed: "\<not> object_columns_only df idf
                   (date_range_closed_left a (b + P_FREQUENCY_D) P_FREQUENCY_D)"
  shows "\<exists>res. resample_df df a b idf = Inr res \<and>
           map s_dt res = date_range_closed_left a (b + P_FREQUENCY_D) P_FREQUENCY_D \<and>
           (\<forall>r \<in> set res. s_pp_id r = None)"
proof -
  define grid where "grid = date_range_closed_left a (b + P_FREQUENCY_D) P_FREQUENCY_D"
  define cells where "cells = map (\<lambda>g. find (\<lambda>r. s_dt r = g) idf) grid"
  define feats where "feats = interpolate_time (\<lambda>f. None)
       (zip grid (map (\<lambda>cell f. Option.bind cell (\<lambda>r. s_features r f)) cells))"
  define mk :: "instant \<times> wrow option \<times> (feature \<Rightarrow> rat option) \<Rightarrow> srow"
    where "mk = (\<lambda>(g, cell, fs).
                         \<lparr>s_pp_id = None, s_dt = g,
                          s_summary = Option.bind cell s_summary,
                          s_features = fs,
                          s_ipolated = Option.bind cell s_ipolated,
                          s_epolated = Option.bind cell s_epolated\<rparr>)"
  have re: "reindex s_dt idf grid = Inr cells"
    using assms(1) by (simp add: reindex_def cells_def)
  have ty: "\<not> object_columns_only df idf grid" unfolding grid_def by (rule typed)
  have run: "resample_df df a b idf = Inr (map mk (zip grid (zip cells feats)))"
    unfolding resample_df_def grid_def[symmetric] Let_def re
    using ty by (simp add: feats_def mk_def)
  have lc: "length cells = length grid" by (simp add: cells_def)
  have lf: "length feats = length grid" by (simp add: feats_def length_interpolate_time lc)
  have "map s_dt (map mk (zip grid (zip cells feats))) = grid"
    by (rule map_dt_zip_rows) (auto simp: lc lf mk_def)
  moreover have "\<forall>r \<in> set (map mk (zip grid (zip cells feats))). s_pp_id r = None"
    by (auto simp: mk_def)
  ultimately show ?thesis using run unfolding grid_def by blast
qed

lemma remdups_single:
  "xs \<noteq> [] \<Longrightarrow> \<forall>y \<in> set xs. y = p \<Longrightarrow> remdups xs = [p]"
proof (induction xs)
  case Nil
  then show ?case by simp
next
  case (Cons a xs)
  show ?case
  proof (cases "xs = []")
    case True
    with Cons.prems show ?thesis by simp
  next
    case False
    with Cons have ih: "remdups xs = [p]" by simp
    from False obtain b where "b \<in> set xs" by (cases xs) auto
    with Cons.prems have "a \<in> set xs" by simp
    with ih show ?thesis by simp
  qed
qed

lemma first_non_null_single:
  "xs \<noteq> [] \<Longrightarrow> \<forall>y \<in> set xs. y = Some p \<Longrightarrow> first_non_null xs = Some p"
  by (cases xs) simp_all

lemma filter_all: "\<forall>r \<in> set xs. P r \<Longrightarrow> filter P xs = xs"
  by (induction xs) simp_all

lemma resample_by_plant_single:
  assumes ne: "(df::wrow list) \<noteq> []"
    and one: "\<forall>r \<in> set df. s_pp_id r = Some p"
    and d: "distinct (map s_dt df)"
    and typed: "\<not> object_columns_only df df
                   (date_range_closed_left a (b + P_FREQUENCY_D) P_FREQUENCY_D)"
  shows "\<exists>res. resample_by_plant a b df = Inr res \<and>
           map s_dt res = date_range_closed_left a (b + P_FREQUENCY_D) P_FREQUENCY_D"
proof -
  have "map (\<lambda>r. the (s_pp_id r)) df \<noteq> []" using ne by simp
  moreover have "\<forall>y \<in> set (map (\<lambda>r. the (s_pp_id r)) df). y = p" using one by simp
  ultimately have "remdups (map (\<lambda>r. the (s_pp_id r)) df) = [p]" by (rule remdups_single)
  then have groups: "sort (remdups (map (\<lambda>r. the (s_pp_id r)) df)) = [p]" by simp
  have grp: "filter (\<lambda>r. s_pp_id r = Some p) df = df" using one by (rule filter_all)
  from resample_df_grid[OF d typed] obtain res0 where
    r0: "resample_df df a b df = Inr res0" and
    g0: "map s_dt res0 = date_range_closed_left a (b + P_FREQUENCY_D) P_FREQUENCY_D"
    by blast
  have "resample_by_plant a b df = Inr (map (\<lambda>r. r\<lparr>s_pp_id := Some p\<rparr>) res0)"
    unfolding resample_by_plant_def groups by (simp add: grp r0)
  moreover have "map s_dt (map (\<lambda>r. r\<lparr>s_pp_id := Some p\<rparr>) res0) = map s_dt res0"
    by (simp add: comp_def)
  ultimately show ?thesis using g0 by simp
qed

lemma smooth_block_grid:
  assumes ne: "(df::wrow list) \<noteq> []"
    and d: "distinct (map s_dt df)"
    and one: "has_pp \<Longrightarrow> \<forall>r \<in> set df. s_pp_id r = Some p"
    and typed: "\<not> object_columns_only df df
                   (date_range_closed_left a (b + P_FREQUENCY_D) P_FREQUENCY_D)"
  shows "\<exists>res. interpolate_smooth_block has_pp (Some a) (Some b) df = Inr res \<and>
           map s_dt res = butlast (date_range_closed_left a (b + P_FREQUENCY_D) P_FREQUENCY_D)"
proof -
  have "\<exists>res0. (if has_pp then resample_by_plant a b df else resample_df df a b df) = Inr res0 \<and>
          map s_dt res0 = date_range_closed_left a (b + P_FREQUENCY_D) P_FREQUENCY_D"
  proof (cases has_pp)
    case True
    with resample_by_plant_single[OF ne one[OF True] d typed] show ?thesis by simp
  next
    case False
    with resample_df_grid[OF d typed] show ?thesis by auto
  qed
  then obtain res0 where
    r0: "(if has_pp then resample_by_plant a b df else resample_df df a b df) = Inr res0" and
    g0: "map s_dt res0 = date_range_closed_left a (b + P_FREQUENCY_D) P_FREQUENCY_D"
    by blast
  have run: "interpolate_smooth_block has_pp (Some a) (Some b) df =
               Inr (butlast (fix_non_interpolated res0))"
    unfolding interpolate_smooth_block_def Let_def using ne r0 by (cases has_pp) simp_all
  have "map s_dt (butlast (fix_non_interpolated res0)) = butlast (map s_dt (fix_non_interpolated res0))"
    by (rule map_butlast)
  also have "\<dots> = butlast (date_range_closed_left a (b + P_FREQUENCY_D) P_FREQUENCY_D)"
    by (simp only: s_dt_fix_non_interpolated g0)
  finally show ?thesis using run by simp
qed

lemma hour_grid:
  "butlast (date_range_closed_left t0 (t0 + int n * S_FREQUENCY_D + P_FREQUENCY_D) P_FREQUENCY_D) =
   map (\<lambda>k. t0 + int k * P_FREQUENCY_D) [0..<12 * n]"
proof -
  have "t0 + int n * S_FREQUENCY_D + P_FREQUENCY_D = t0 + int (Suc (12 * n)) * P_FREQUENCY_D"
    by (simp add: S_FREQUENCY_D_def P_FREQUENCY_D_def algebra_simps)
  then have "date_range_closed_left t0 (t0 + int n * S_FREQUENCY_D + P_FREQUENCY_D) P_FREQUENCY_D =
             map (\<lambda>k. t0 + int k * P_FREQUENCY_D) [0..<Suc (12 * n)]"
    by (simp only: date_range_closed_left_steps[OF P_FREQUENCY_D_pos])
  then show ?thesis by simp
qed


lemma s_dt_groupby_dt_first: "map s_dt (groupby_dt_first df) = sort (remdups (map s_dt df))"
  by (simp add: groupby_dt_first_def group_first_def comp_def)

lemma in_set_nonempty: "y \<in> set xs \<Longrightarrow> xs \<noteq> []"
  by auto

lemma groupby_dt_first_nonempty: "df \<noteq> [] \<Longrightarrow> groupby_dt_first df \<noteq> []"
proof -
  assume "df \<noteq> []"
  then have "remdups (map s_dt df) \<noteq> []" by simp
  then have "0 < length (remdups (map s_dt df))" by simp
  moreover have "length (groupby_dt_first df) = length (remdups (map s_dt df))"
    by (simp add: groupby_dt_first_def)
  ultimately have "0 < length (groupby_dt_first df)" by simp
  then show ?thesis by simp
qed

lemma s_pp_id_groupby_dt_first:
  assumes "\<forall>r \<in> set df. s_pp_id r = Some p"
  shows "\<forall>r \<in> set (groupby_dt_first df). s_pp_id r = Some p"
proof
  fix r assume "r \<in> set (groupby_dt_first df)"
  then obtain g where g: "g \<in> set (map s_dt df)"
    and r: "r = group_first g (filter (\<lambda>r. s_dt r = g) df)"
    by (auto simp: groupby_dt_first_def)
  from g obtain q where q: "q \<in> set df" "s_dt q = g" by auto
  then have "q \<in> set (filter (\<lambda>r. s_dt r = g) df)" by simp
  then have "filter (\<lambda>r. s_dt r = g) df \<noteq> []" by (rule in_set_nonempty)
  then have ne: "map s_pp_id (filter (\<lambda>r. s_dt r = g) df) \<noteq> []" by simp
  have "\<forall>y \<in> set (map s_pp_id (filter (\<lambda>r. s_dt r = g) df)). y = Some p"
    using assms by auto
  with ne have "first_non_null (map s_pp_id (filter (\<lambda>r. s_dt r = g) df)) = Some p"
    by (rule first_non_null_single)
  then show "s_pp_id r = Some p" by (simp add: r group_first_def)
qed

lemma distinct_map_of_key:
  assumes d: "distinct (map k xs)"
    and same: "\<And>r r'. r \<in> set xs \<Longrightarrow> r' \<in> set xs \<Longrightarrow> f r = f r' \<Longrightarrow> k r = k r'"
  shows "distinct (map f xs)"
proof -
  from d have dx: "distinct xs" and inj: "inj_on k (set xs)"
    by (simp_all only: distinct_map)
  have "inj_on f (set xs)"
  proof (rule inj_onI)
    fix r r' assume r: "r \<in> set xs" and r': "r' \<in> set xs" and e: "f r = f r'"
    from same[OF r r' e] have "k r = k r'" .
    from inj this r r' show "r = r'" by (rule inj_onD)
  qed
  with dx show ?thesis by (simp only: distinct_map)
qed

lemma freq_floor_aligned: "t mod f = 0 \<Longrightarrow> freq_floor t f = t"
  by (simp add: freq_floor_def)

lemma freq_ceil_aligned: "t mod f = 0 \<Longrightarrow> freq_ceil t f = t"
  by (simp add: freq_ceil_def zmod_zminus1_eq_if)

lemma get_pp_weather_smooth_unfold:
  assumes res: "get_pp_id ident = Inr x"
    and mode: "src_age \<noteq> None \<or> src_dt_max \<noteq> None"
  shows "get_pp_weather db (Some ident) (Some (DateTime a)) (Some (DateTime b)) all_indices
           src_age src_dt_max True =
         (case interpolate_smooth_block all_indices (Some (freq_floor a S_FREQUENCY_D))
                 (Some (freq_ceil b S_FREQUENCY_D))
                 (if src_dt_max \<noteq> None
                  then groupby_dt_first (map (select_weather all_indices False)
                         (filter (\<lambda>r. w_pp_id r = pp_id x \<and>
                              freq_floor a S_FREQUENCY_D \<le> w_dt r \<and>
                              w_dt r \<le> freq_ceil b S_FREQUENCY_D \<and>
                              (case src_age of None \<Rightarrow> True | Some a \<Rightarrow> w_age r = a) \<and>
                              (case src_dt_max of None \<Rightarrow> True
                               | Some m \<Rightarrow> (case w_src_dt r of None \<Rightarrow> False | Some s \<Rightarrow> s \<le> m)))
                            (sort_key (\<lambda>r. (w_dt r, w_age r)) db)))
                  else map (select_weather all_indices False)
                         (filter (\<lambda>r. w_pp_id r = pp_id x \<and>
                              freq_floor a S_FREQUENCY_D \<le> w_dt r \<and>
                              w_dt r \<le> freq_ceil b S_FREQUENCY_D \<and>
                              (case src_age of None \<Rightarrow> True | Some a \<Rightarrow> w_age r = a) \<and>
                              (case src_dt_max of None \<Rightarrow> True
                               | Some m \<Rightarrow> (case w_src_dt r of None \<Rightarrow> False | Some s \<Rightarrow> s \<le> m)))
                            (sort_key (\<lambda>r. (w_dt r, w_age r)) db))) of
            Inl e \<Rightarrow> Inl e
          | Inr res \<Rightarrow> Inr (Smoothed ((if all_indices then [''pp_id''] else []) @ [''dt'']) res))"
  using mode
  by (cases src_age; cases src_dt_max) (simp_all add: get_pp_weather_def Let_def res)


lemma s_dt_select_weather: "map s_dt (map (select_weather hp ha) xs) = map w_dt xs"
  by (simp add: select_weather_def comp_def)

lemma P_dvd_S: "P_FREQUENCY_D dvd S_FREQUENCY_D"
  by (simp add: P_FREQUENCY_D_def S_FREQUENCY_D_def)

lemma S_eq_12_P: "S_FREQUENCY_D = 12 * P_FREQUENCY_D"
  by (simp add: P_FREQUENCY_D_def S_FREQUENCY_D_def)

lemma S_FREQUENCY_D_pos: "0 < S_FREQUENCY_D"
  by (simp add: S_FREQUENCY_D_def MINUTE_def)

lemma first_non_null_some:
  "xs \<noteq> [] \<Longrightarrow> \<forall>y \<in> set xs. y \<noteq> None \<Longrightarrow> first_non_null xs \<noteq> None"
  by (cases xs) auto

lemma r_src_dt_groupby_dt_first:
  assumes "\<forall>r \<in> set df. r_src_dt r \<noteq> None"
  shows "\<forall>r \<in> set (groupby_dt_first df). r_src_dt r \<noteq> None"
proof
  fix r assume "r \<in> set (groupby_dt_first df)"
  then obtain g where g: "g \<in> set (map s_dt df)"
    and r: "r = group_first g (filter (\<lambda>r. s_dt r = g) df)"
    by (auto simp: groupby_dt_first_def)
  from g obtain q where q: "q \<in> set df" "s_dt q = g" by auto
  then have "q \<in> set (filter (\<lambda>r. s_dt r = g) df)" by simp
  then have "filter (\<lambda>r. s_dt r = g) df \<noteq> []" by (rule in_set_nonempty)
  then have ne: "map r_src_dt (filter (\<lambda>r. s_dt r = g) df) \<noteq> []" by simp
  have "\<forall>y \<in> set (map r_src_dt (filter (\<lambda>r. s_dt r = g) df)). y \<noteq> None"
    using assms by auto
  with ne have "first_non_null (map r_src_dt (filter (\<lambda>r. s_dt r = g) df)) \<noteq> None"
    by (rule first_non_null_some)
  then show "r_src_dt r \<noteq> None" by (simp add: r group_first_def)
qed

text \<open>
  C1, as the claim states it, fails on an hourly series that is not on the hour. The
  series of plant 1 has the timestamps 00:30 and 01:30; fetched with smoothing and the
  bounds \<open>dt_start = 00:30\<close>, \<open>dt_end = 01:30\<close>, the bounds are rounded outward to 00:00
  and 02:00 and the frame has 24 rows, from 00:00 to 01:55, not \<open>12 * 1 = 12\<close> rows
  within \<open>[00:30, 01:30)\<close>.
\<close>

theorem C1_off_the_hour_counterexample:
  "(case get_pp_weather half_past_anchors (Some (PlantInt 1))
          (Some (DateTime (T0 + 30 * MINUTE))) (Some (DateTime (T0 + 90 * MINUTE)))
          False (Some 0) None True of
      Inr (Smoothed idx df) \<Rightarrow>
        length df = 24 \<and>
        map s_dt df = map (\<lambda>k. T0 + int k * (5 * MINUTE)) [0..<24]
    | _ \<Rightarrow> False)"
  by code_simp

text \<open>
  A series without any value has columns of object type only, and the interpolation
  raises.
\<close>

lemma smoothing_without_values_raises:
  "(case get_pp_weather null_anchors (Some (PlantInt 1)) (Some (DateTime T0))
          (Some (DateTime (T0 + 60 * MINUTE))) False (Some 0) None True of
      Inl e \<Rightarrow> e = TypeError ''Cannot interpolate with all object-dtype columns''
    | Inr df \<Rightarrow> False)"
  by code_simp

text \<open>
  C1, amended. A plant has a weather series at the hours \<open>t0, t0 + 1h, ..., t0 + n * 1h\<close>,
  with \<open>t0\<close> on the hour, among the records that the selection mode keeps, in a table
  with unique keys; one of the fetched records has a \<open>src_dt\<close> or a numeric value.
  Fetched with smoothing and the bounds \<open>dt_start = t0\<close>, \<open>dt_end = tn\<close>, with or
  without the plant as an index column, the frame has exactly \<open>12 * n\<close> rows: the grid
  \<open>[t0, tn + 5min)\<close> at 5-minute steps without its last point \<open>tn\<close>. Row \<open>k\<close> is at
  \<open>t0 + k * 5min\<close>, a multiple of 5 minutes within \<open>[t0, tn)\<close>.
\<close>

theorem C1_smoothing_grid:
  assumes res: "get_pp_id ident = Inr x"
    and aligned: "t0 mod S_FREQUENCY_D = 0"
    and mode: "src_age \<noteq> None \<or> src_dt_max \<noteq> None"
    and key: "distinct (map (\<lambda>r. (w_pp_id r, w_dt r, w_age r)) db)"
    and series: "\<forall>k \<le> n. \<exists>r \<in> set db.
        w_pp_id r = pp_id x \<and> w_dt r = t0 + int k * S_FREQUENCY_D \<and>
        (case src_age of None \<Rightarrow> True | Some a \<Rightarrow> w_age r = a) \<and>
        (case src_dt_max of None \<Rightarrow> True
         | Some m \<Rightarrow> (case w_src_dt r of None \<Rightarrow> False | Some s \<Rightarrow> s \<le> m))"
    and valued: "\<exists>r \<in> set db.
        w_pp_id r = pp_id x \<and> t0 \<le> w_dt r \<and> w_dt r \<le> t0 + int n * S_FREQUENCY_D \<and>
        (case src_age of None \<Rightarrow> True | Some a \<Rightarrow> w_age r = a) \<and>
        (case src_dt_max of None \<Rightarrow> True
         | Some m \<Rightarrow> (case w_src_dt r of None \<Rightarrow> False | Some s \<Rightarrow> s \<le> m)) \<and>
        (w_src_dt r \<noteq> None \<or> (\<exists>f. w_features r f \<noteq> None))"
  shows "\<exists>idx df.
      get_pp_weather db (Some ident) (Some (DateTime t0))
        (Some (DateTime (t0 + int n * S_FREQUENCY_D))) all_indices src_age src_dt_max True =
        Inr (Smoothed idx df) \<and>
      length df = 12 * n \<and>
      map s_dt df = map (\<lambda>k. t0 + int k * P_FREQUENCY_D) [0..<12 * n] \<and>
      (\<forall>r \<in> set df. s_dt r mod P_FREQUENCY_D = 0 \<and> t0 \<le> s_dt r \<and>
                      s_dt r < t0 + int n * S_FREQUENCY_D)"
proof -
  let ?tn = "t0 + int n * S_FREQUENCY_D"
  let ?Q = "\<lambda>r. w_pp_id r = pp_id x \<and> t0 \<le> w_dt r \<and> w_dt r \<le> ?tn \<and>
                 (case src_age of None \<Rightarrow> True | Some a \<Rightarrow> w_age r = a) \<and>
                 (case src_dt_max of None \<Rightarrow> True
                  | Some m \<Rightarrow> (case w_src_dt r of None \<Rightarrow> False | Some s \<Rightarrow> s \<le> m))"
  let ?data = "filter ?Q (sort_key (\<lambda>r. (w_dt r, w_age r)) db)"
  let ?sel = "map (select_weather all_indices False) ?data"
  let ?df = "if src_dt_max \<noteq> None then groupby_dt_first ?sel else ?sel"
  let ?idx = "(if all_indices then [''pp_id''] else []) @ [''dt'']"
  have tn_al: "?tn mod S_FREQUENCY_D = 0" using aligned by simp
  have fl: "freq_floor t0 S_FREQUENCY_D = t0" using aligned by (rule freq_floor_aligned)
  have ce: "freq_ceil ?tn S_FREQUENCY_D = ?tn" using tn_al by (rule freq_ceil_aligned)
  have unfold: "get_pp_weather db (Some ident) (Some (DateTime t0)) (Some (DateTime ?tn))
                  all_indices src_age src_dt_max True =
                (case interpolate_smooth_block all_indices (Some t0) (Some ?tn) ?df of
                   Inl e \<Rightarrow> Inl e | Inr res \<Rightarrow> Inr (Smoothed ?idx res))"
    using get_pp_weather_smooth_unfold[OF res mode, of db t0 ?tn all_indices]
    by (simp only: fl ce)
  \<comment> \<open>the fetched frame is not empty\<close>
  from series have "\<exists>r \<in> set db. w_pp_id r = pp_id x \<and> w_dt r = t0 + int 0 * S_FREQUENCY_D \<and>
        (case src_age of None \<Rightarrow> True | Some a \<Rightarrow> w_age r = a) \<and>
        (case src_dt_max of None \<Rightarrow> True
         | Some m \<Rightarrow> (case w_src_dt r of None \<Rightarrow> False | Some s \<Rightarrow> s \<le> m))"
    by blast
  then obtain r0 where r0: "r0 \<in> set db" "w_pp_id r0 = pp_id x" "w_dt r0 = t0"
      "(case src_age of None \<Rightarrow> True | Some a \<Rightarrow> w_age r0 = a)"
      "(case src_dt_max of None \<Rightarrow> True
         | Some m \<Rightarrow> (case w_src_dt r0 of None \<Rightarrow> False | Some s \<Rightarrow> s \<le> m))"
    by auto
  have "0 \<le> int n * S_FREQUENCY_D" using S_FREQUENCY_D_pos by simp
  with r0 have "r0 \<in> set ?data" by simp
  then have data_ne: "?data \<noteq> []" by (rule in_set_nonempty)
  then have df0_ne: "?sel \<noteq> []" by simp
  have ne: "?df \<noteq> []"
  proof (cases "src_dt_max \<noteq> None")
    case True
    show ?thesis unfolding if_P[OF True] using df0_ne by (rule groupby_dt_first_nonempty)
  next
    case False
    show ?thesis unfolding if_not_P[OF False] by (rule df0_ne)
  qed
  \<comment> \<open>its timestamps are distinct\<close>
  have d: "distinct (map s_dt ?df)"
  proof (cases "src_dt_max \<noteq> None")
    case True
    have "distinct (sort (remdups (map s_dt ?sel)))" by simp
    then show ?thesis unfolding if_P[OF True] by (simp only: s_dt_groupby_dt_first)
  next
    case False
    with mode obtain a where a: "src_age = Some a" by auto
    have "distinct (map (\<lambda>r. (w_pp_id r, w_dt r, w_age r)) ?data)"
      using key by (simp add: distinct_map_filter distinct_map_sort_key)
    moreover have "(w_pp_id r, w_dt r, w_age r) = (w_pp_id r', w_dt r', w_age r')"
      if "r \<in> set ?data" "r' \<in> set ?data" "w_dt r = w_dt r'" for r r'
      using that a by simp
    ultimately have dd: "distinct (map w_dt ?data)" by (rule distinct_map_of_key)
    have eq: "map s_dt ?sel = map w_dt ?data" by (rule s_dt_select_weather)
    from dd show ?thesis unfolding if_not_P[OF False] eq .
  qed
  \<comment> \<open>with a plant column, every row is of the one plant\<close>
  have pp: "\<forall>r \<in> set ?df. s_pp_id r = Some (pp_id x)" if ai: all_indices
  proof -
    have p0: "\<forall>r \<in> set ?sel. s_pp_id r = Some (pp_id x)"
      using ai by (auto simp: select_weather_def)
    show ?thesis
    proof (cases "src_dt_max \<noteq> None")
      case True
      show ?thesis unfolding if_P[OF True] using p0 by (rule s_pp_id_groupby_dt_first)
    next
      case False
      show ?thesis unfolding if_not_P[OF False] by (rule p0)
    qed
  qed
  \<comment> \<open>it has a datetime or a float column\<close>
  have typed: "\<not> object_columns_only ?df ?df
                   (date_range_closed_left t0 (?tn + P_FREQUENCY_D) P_FREQUENCY_D)"
  proof (cases "src_dt_max \<noteq> None")
    case True
    then obtain m where m: "src_dt_max = Some m" by auto
    have "\<forall>r \<in> set ?sel. r_src_dt r \<noteq> None"
      by (auto simp: select_weather_def m split: option.splits)
    then have all: "\<forall>r \<in> set (groupby_dt_first ?sel). r_src_dt r \<noteq> None"
      by (rule r_src_dt_groupby_dt_first)
    from ne have "hd ?df \<in> set ?df" by (rule hd_in_set)
    then have hq: "hd (groupby_dt_first ?sel) \<in> set (groupby_dt_first ?sel)"
      unfolding if_P[OF True] .
    with all have "r_src_dt (hd (groupby_dt_first ?sel)) \<noteq> None" by (rule bspec)
    then have "r_src_dt (hd (groupby_dt_first ?sel)) \<noteq> None \<or>
               (\<exists>f. s_features (hd (groupby_dt_first ?sel)) f \<noteq> None)" by (rule disjI1)
    with hq show ?thesis unfolding if_P[OF True] by (rule valued_not_object_columns_only)
  next
    case False
    from valued obtain v where v: "v \<in> set db" "?Q v"
      and vv: "w_src_dt v \<noteq> None \<or> (\<exists>f. w_features v f \<noteq> None)"
      by blast
    from v have "v \<in> set ?data" by simp
    then have "select_weather all_indices False v \<in> select_weather all_indices False ` set ?data"
      by (rule imageI)
    then have vq: "select_weather all_indices False v \<in> set ?sel" by (simp only: set_map)
    from vv have "r_src_dt (select_weather all_indices False v) \<noteq> None \<or>
               (\<exists>f. s_features (select_weather all_indices False v) f \<noteq> None)"
      by (simp add: select_weather_def)
    with vq show ?thesis unfolding if_not_P[OF False] by (rule valued_not_object_columns_only)
  qed
  from smooth_block_grid[OF ne d pp typed, of all_indices]
  obtain df where run: "interpolate_smooth_block all_indices (Some t0) (Some ?tn) ?df = Inr df"
    and grid: "map s_dt df = butlast (date_range_closed_left t0 (?tn + P_FREQUENCY_D) P_FREQUENCY_D)"
    by blast
  have dts: "map s_dt df = map (\<lambda>k. t0 + int k * P_FREQUENCY_D) [0..<12 * n]"
    unfolding grid by (rule hour_grid)
  have len: "length df = 12 * n"
  proof -
    have "length (map s_dt df) = 12 * n" unfolding dts by simp
    then show ?thesis by simp
  qed
  have whole: "get_pp_weather db (Some ident) (Some (DateTime t0)) (Some (DateTime ?tn))
                  all_indices src_age src_dt_max True = Inr (Smoothed ?idx df)"
    unfolding unfold run by simp
  have P0: "t0 mod P_FREQUENCY_D = 0"
  proof -
    from aligned have "S_FREQUENCY_D dvd t0" by (simp add: mod_eq_0_iff_dvd)
    with P_dvd_S have "P_FREQUENCY_D dvd t0" by (rule dvd_trans)
    then show ?thesis by (simp add: mod_eq_0_iff_dvd)
  qed
  have rows: "\<forall>r \<in> set df. s_dt r mod P_FREQUENCY_D = 0 \<and> t0 \<le> s_dt r \<and> s_dt r < ?tn"
  proof
    fix r assume "r \<in> set df"
    then have "s_dt r \<in> set (map s_dt df)" by simp
    then obtain k where k: "k < 12 * n" and rk: "s_dt r = t0 + int k * P_FREQUENCY_D"
      unfolding dts by auto
    have m: "s_dt r mod P_FREQUENCY_D = 0" unfolding rk using P0 by simp
    have lo: "t0 \<le> s_dt r" unfolding rk using P_FREQUENCY_D_pos by simp
    from k have "int k < 12 * int n" by simp
    then have "int k * P_FREQUENCY_D < 12 * int n * P_FREQUENCY_D"
      using P_FREQUENCY_D_pos by simp
    then have hi: "s_dt r < ?tn" unfolding rk S_eq_12_P by (simp add: algebra_simps)
    from m lo hi show "s_dt r mod P_FREQUENCY_D = 0 \<and> t0 \<le> s_dt r \<and> s_dt r < ?tn" by simp
  qed
  show ?thesis
    by (rule exI[of _ ?idx], rule exI[of _ df]) (intro conjI; fact)
qed


text \<open>
  The theorem at the two measured rows of plant 1 at 00:00 and 01:00: one hour, 12 rows.
\<close>

theorem C1_smoothing_grid_witness:
  "T0 mod S_FREQUENCY_D = 0 \<and>
   (\<exists>idx df.
      get_pp_weather two_anchors (Some (PlantInt 1)) (Some (DateTime T0))
        (Some (DateTime (T0 + int 1 * S_FREQUENCY_D))) True (Some 0) None True =
        Inr (Smoothed idx df) \<and>
      length df = 12 \<and>
      map s_dt df = map (\<lambda>k. T0 + int k * P_FREQUENCY_D) [0..<12])"
proof -
  have res: "get_pp_id (PlantInt 1) = Inr (PowerPlantID 1 (Some (- 1)))" by simp
  have aligned: "T0 mod S_FREQUENCY_D = 0"
    by (simp add: T0_def DAY_def S_FREQUENCY_D_def MINUTE_def)
  have mode: "Some (0::int) \<noteq> None \<or> (None::instant option) \<noteq> None" by simp
  have key: "distinct (map (\<lambda>r. (w_pp_id r, w_dt r, w_age r)) two_anchors)"
    by (simp add: two_anchors_def weather_record_def MINUTE_def)
  have series: "\<forall>k \<le> 1. \<exists>r \<in> set two_anchors.
        w_pp_id r = pp_id (PowerPlantID 1 (Some (- 1))) \<and>
        w_dt r = T0 + int k * S_FREQUENCY_D \<and>
        (case Some (0::int) of None \<Rightarrow> True | Some a \<Rightarrow> w_age r = a) \<and>
        (case (None::instant option) of None \<Rightarrow> True
         | Some m \<Rightarrow> (case w_src_dt r of None \<Rightarrow> False | Some s \<Rightarrow> s \<le> m))"
  proof (intro allI impI)
    fix k :: nat assume "k \<le> 1"
    then have "k = 0 \<or> k = 1" by auto
    then show "\<exists>r \<in> set two_anchors.
        w_pp_id r = pp_id (PowerPlantID 1 (Some (- 1))) \<and>
        w_dt r = T0 + int k * S_FREQUENCY_D \<and>
        (case Some (0::int) of None \<Rightarrow> True | Some a \<Rightarrow> w_age r = a) \<and>
        (case (None::instant option) of None \<Rightarrow> True
         | Some m \<Rightarrow> (case w_src_dt r of None \<Rightarrow> False | Some s \<Rightarrow> s \<le> m))"
      by (auto simp: two_anchors_def weather_record_def S_FREQUENCY_D_def)
  qed
  have valued: "\<exists>r \<in> set two_anchors.
        w_pp_id r = pp_id (PowerPlantID 1 (Some (- 1))) \<and>
        T0 \<le> w_dt r \<and> w_dt r \<le> T0 + int 1 * S_FREQUENCY_D \<and>
        (case Some (0::int) of None \<Rightarrow> True | Some a \<Rightarrow> w_age r = a) \<and>
        (case (None::instant option) of None \<Rightarrow> True
         | Some m \<Rightarrow> (case w_src_dt r of None \<Rightarrow> False | Some s \<Rightarrow> s \<le> m)) \<and>
        (w_src_dt r \<noteq> None \<or> (\<exists>f. w_features r f \<noteq> None))"
    by (simp add: two_anchors_def weather_record_def S_FREQUENCY_D_def MINUTE_def)
  from C1_smoothing_grid[OF res aligned mode key series valued, of True]
  obtain idx df where
    "get_pp_weather two_anchors (Some (PlantInt 1)) (Some (DateTime T0))
        (Some (DateTime (T0 + int 1 * S_FREQUENCY_D))) True (Some 0) None True =
        Inr (Smoothed idx df)"
    "length df = 12 * 1"
    "map s_dt df = map (\<lambda>k. T0 + int k * P_FREQUENCY_D) [0..<12 * 1]"
    by blast
  with aligned show ?thesis by auto
qed

section \<open>Properties of the evaluator\<close>



text \<open>
  A weather frame of the same length as the prediction and a day later is accepted as
  well: before its time span is compared it has taken the index of the prediction
  frame (line 212), and the evaluator gets it with the timestamp of the prediction.
\<close>

lemma weather_span_is_not_compared:
  "evaluate_prediction
     (\<lambda>ident df dt_start dt_end prediction_type. Inr (length (erows df)))
     (\<lambda>ident df dt_start dt_end. Inr (map e_dt (erows df)))
     (\<lambda>ident df dt_start dt_end. Inr (length (erows df)))
     one_row_prediction ''power_ac'' empty_frame next_day_weather None =
   Inr (1, Some [18628 * DAY], None)"
  by (simp add: evaluate_prediction_def evaluate_checks_def one_row_prediction_def
      next_day_weather_def empty_frame_def attach_identity_def set_index_of_def Let_def)


lemma attach_identity_Inr:
  assumes "attach_identity pp df = Inr p"
  shows "length (erows p) = length (erows df)"
    and "map e_values (erows p) = map e_values (erows df)"
    and "''power'' \<in> set (column_names df) \<Longrightarrow> ''power'' \<in> set (column_names p)"
  using assms
  by (auto simp: attach_identity_def comp_def
      split: if_splits sum.splits option.splits PowerPlantIDT.splits prod.splits)

lemma missing_power_count:
  assumes "(r::erow) \<in> set rs" and "e_values r ''power'' = None"
  shows "length (filter (\<lambda>r. e_values r ''power'' \<noteq> None) rs) \<noteq> length rs"
proof -
  from assms have "length (filter (\<lambda>r. e_values r ''power'' \<noteq> None) rs) < length rs"
    by (intro length_filter_less) simp_all
  then show ?thesis by simp
qed

lemma evaluate_checks_missing_power:
  assumes c: "''power'' \<in> set (column_names p)"
    and q: "q \<in> set (erows p)" "e_values q ''power'' = None"
  shows "evaluate_checks evp evw evh hh hw p ptype h w =
         Inl (RuntimeError ''Provided prediction DataFrame contains NaN or other invalid values!'')"
proof -
  from c have a: "\<not> ''power'' \<notin> set (column_names p)" by simp
  have b: "length (filter (\<lambda>r. e_values r ''power'' \<noteq> None) (erows p)) \<noteq> length (erows p)"
    using q by (rule missing_power_count)
  show ?thesis unfolding evaluate_checks_def if_not_P[OF a] if_P[OF b] by (rule refl)
qed



lemma missing_power_map:
  assumes "map e_values (erows p) = map e_values (erows df)"
    and "(r::erow) \<in> set (erows df)" and "e_values r ''power'' = None"
  shows "\<exists>q \<in> set (erows p). e_values q ''power'' = None"
proof -
  from assms(2) have "e_values r \<in> set (map e_values (erows df))" by simp
  then have "e_values r \<in> set (map e_values (erows p))" by (simp only: assms(1))
  then obtain q where q: "q \<in> set (erows p)" "e_values q = e_values r" by auto
  from q(2) assms(3) have "e_values q ''power'' = None" by simp
  with q(1) show ?thesis by (rule bexI[rotated])
qed


lemma evaluate_prediction_steps:
  "(\<exists>e. evaluate_prediction evp evw evh df ptype hist w pp = Inl e) \<or>
   (\<exists>p h. (p = df \<or> attach_identity pp df = Inr p) \<and>
      evaluate_prediction evp evw evh df ptype hist w pp =
        evaluate_checks evp evw evh (0 < length (erows hist)) (0 < length (erows w)) p ptype h w)"
proof -
  define s1 where "s1 =
    (if \<not> (''pp_id'' \<in> set (index_names df) \<and> ''inv_id'' \<in> set (index_names df))
     then (if pp = None \<and> 0 < length (erows df)
           then Inl (RuntimeError ''Prediction frame is missing indices'')
           else attach_identity pp df)
     else Inr df)"
  define s2 where "s2 = (\<lambda>p.
    (if \<not> (''pp_id'' \<in> set (index_names hist) \<and> ''inv_id'' \<in> set (index_names hist))
     then (if pp = None \<and> 0 < length (erows hist)
           then Inl (RuntimeError ''History frame is missing indices'')
           else attach_identity pp p)
     else Inr hist))"
  have run: "evaluate_prediction evp evw evh df ptype hist w pp =
    (case s1 of Inl e \<Rightarrow> Inl e
     | Inr p \<Rightarrow> (case s2 p of Inl e \<Rightarrow> Inl e
                 | Inr h \<Rightarrow> evaluate_checks evp evw evh (0 < length (erows hist))
                             (0 < length (erows w)) p ptype h w))"
    unfolding evaluate_prediction_def Let_def s1_def s2_def by (rule refl)
  show ?thesis
  proof (cases s1)
    case (Inl e)
    then show ?thesis by (simp only: run sum.case) blast
  next
    case (Inr p)
    then have src: "p = df \<or> attach_identity pp df = Inr p"
      unfolding s1_def by (simp split: if_splits)
    show ?thesis
    proof (cases "s2 p")
      case (Inl e)
      with Inr show ?thesis by (simp only: run sum.case) blast
    next
      case h: (Inr h)
      have "evaluate_prediction evp evw evh df ptype hist w pp =
            evaluate_checks evp evw evh (0 < length (erows hist)) (0 < length (erows w)) p ptype h w"
        by (simp only: run Inr h sum.case)
      with src show ?thesis by blast
    qed
  qed
qed





text \<open>
  Whatever the identifier and the other frames: a prediction frame with a missing power
  value never gets statistics.
\<close>

lemma evaluate_prediction_missing_power:
  assumes c: "''power'' \<in> set (column_names prediction_df)"
    and r: "(r::erow) \<in> set (erows prediction_df)" "e_values r ''power'' = None"
  shows "\<exists>e. evaluate_prediction evp evw evh prediction_df ptype history_df weather_df pp = Inl e"
  using evaluate_prediction_steps[of evp evw evh prediction_df ptype history_df weather_df pp]
proof
  assume "\<exists>e. evaluate_prediction evp evw evh prediction_df ptype history_df weather_df pp = Inl e"
  then show ?thesis .
next
  assume "\<exists>p h. (p = prediction_df \<or> attach_identity pp prediction_df = Inr p) \<and>
      evaluate_prediction evp evw evh prediction_df ptype history_df weather_df pp =
        evaluate_checks evp evw evh (0 < length (erows history_df)) (0 < length (erows weather_df))
          p ptype h weather_df"
  then obtain p h where src: "p = prediction_df \<or> attach_identity pp prediction_df = Inr p"
    and run: "evaluate_prediction evp evw evh prediction_df ptype history_df weather_df pp =
        evaluate_checks evp evw evh (0 < length (erows history_df)) (0 < length (erows weather_df))
          p ptype h weather_df"
    by blast
  from src c have cp: "''power'' \<in> set (column_names p)"
    using attach_identity_Inr(3) by blast
  from src have "map e_values (erows p) = map e_values (erows prediction_df)"
    using attach_identity_Inr(2) by blast
  from missing_power_map[OF this r] obtain q where q: "q \<in> set (erows p)" "e_values q ''power'' = None"
    by blast
  show ?thesis unfolding run
    by (rule exI, rule evaluate_checks_missing_power[OF cp q])
qed

section \<open>The rows of the latest forecast before a cutoff\<close>

lemma get_pp_weather_latest_unfold:
  assumes who: "pp = None \<or> (\<exists>i. pp = Some i \<and> get_pp_id i = Inr x)"
  shows "get_pp_weather db pp dt_start dt_end all_indices src_age (Some m) False =
         Inr (Fetched ((if pp = None \<or> all_indices then [''pp_id''] else []) @ [''dt''])
           (groupby_dt_first (map (select_weather (pp = None \<or> all_indices) False)
              (filter (\<lambda>r. (pp = None \<or> w_pp_id r = pp_id x) \<and>
                   (case dt_start of None \<Rightarrow> True | Some b \<Rightarrow> convert_date_time b \<le> w_dt r) \<and>
                   (case dt_end of None \<Rightarrow> True | Some b \<Rightarrow> w_dt r \<le> convert_date_time b) \<and>
                   (case src_age of None \<Rightarrow> True | Some a \<Rightarrow> w_age r = a) \<and>
                   (case w_src_dt r of None \<Rightarrow> False | Some s \<Rightarrow> s \<le> m))
                 (sort_key (\<lambda>r. (w_dt r, w_age r)) db)))))"
proof -
  have bounds: "(case (case dt_start of None \<Rightarrow> None
                        | Some b \<Rightarrow> (let t = (case b of DateTime t \<Rightarrow> t
                                      | Date d \<Rightarrow> date_earliest_date_time d)
                             in Some (if False then freq_floor t S_FREQUENCY_D else t))) of
                   None \<Rightarrow> True | Some t \<Rightarrow> t \<le> v) =
                (case dt_start of None \<Rightarrow> True | Some b \<Rightarrow> convert_date_time b \<le> v)" for dt_start v
    by (cases dt_start) (simp_all add: convert_date_time_def)
  have bounde: "(case (case dt_end of None \<Rightarrow> None
                        | Some b \<Rightarrow> (let t = (case b of DateTime t \<Rightarrow> t
                                      | Date d \<Rightarrow> date_earliest_date_time d)
                             in Some (if False then freq_ceil t S_FREQUENCY_D else t))) of
                   None \<Rightarrow> True | Some t \<Rightarrow> v \<le> t) =
                (case dt_end of None \<Rightarrow> True | Some b \<Rightarrow> v \<le> convert_date_time b)" for dt_end v
    by (cases dt_end) (simp_all add: convert_date_time_def)
  from who show ?thesis
  proof
    assume "pp = None"
    then show ?thesis
      unfolding get_pp_weather_def by (simp add: bounds bounde Let_def)
  next
    assume "\<exists>i. pp = Some i \<and> get_pp_id i = Inr x"
    then obtain i where "pp = Some i" "get_pp_id i = Inr x" by blast
    then show ?thesis
      unfolding get_pp_weather_def by (simp add: bounds bounde Let_def)
  qed
qed


lemma filter_eq_single:
  "distinct gs \<Longrightarrow> g \<in> set gs \<Longrightarrow> filter (\<lambda>h. h = g) gs = [g]"
proof (induction gs)
  case Nil
  then show ?case by simp
next
  case (Cons a gs)
  show ?case
  proof (cases "a = g")
    case True
    with Cons.prems have "g \<notin> set gs" by simp
    then have "filter (\<lambda>h. h = g) gs = []" by (auto simp: filter_empty_conv)
    with True show ?thesis by simp
  next
    case False
    with Cons show ?thesis by simp
  qed
qed

lemma groupby_dt_first_at:
  assumes "g \<in> set (map s_dt df)"
  shows "filter (\<lambda>r. s_dt r = g) (groupby_dt_first df) =
         [group_first g (filter (\<lambda>r. s_dt r = g) df)]"
proof -
  let ?gs = "sort (remdups (map s_dt df))"
  let ?F = "\<lambda>h. group_first h (filter (\<lambda>r. s_dt r = h) df)"
  have d: "distinct ?gs" by simp
  have m: "g \<in> set ?gs" using assms by simp
  have "filter (\<lambda>r. s_dt r = g) (map ?F ?gs) = map ?F (filter (\<lambda>h. h = g) ?gs)"
    by (simp add: filter_map comp_def group_first_def)
  also have "\<dots> = map ?F [g]" using d m by (simp only: filter_eq_single)
  finally show ?thesis by (simp add: groupby_dt_first_def)
qed

lemma first_non_null_hd:
  "xs \<noteq> [] \<Longrightarrow> f (hd xs) \<noteq> None \<Longrightarrow> first_non_null (map f xs) = f (hd xs)"
  by (cases xs) auto

lemma sorted_age_of_group:
  assumes s: "sorted (map (\<lambda>r. (w_dt r, w_age r)) xs)"
    and g: "\<forall>r \<in> set xs. w_dt r = g"
  shows "sorted (map w_age xs)"
  using assms
proof (induction xs)
  case Nil
  then show ?case by simp
next
  case (Cons a xs)
  from Cons.prems have tl: "sorted (map (\<lambda>r. (w_dt r, w_age r)) xs)" and gx: "\<forall>r \<in> set xs. w_dt r = g"
    by simp_all
  have "w_age a \<le> w_age y" if y: "y \<in> set xs" for y
  proof -
    from Cons.prems(1) y have "(w_dt a, w_age a) \<le> (w_dt y, w_age y)" by auto
    moreover from Cons.prems(2) y have "w_dt a = w_dt y" by simp
    ultimately show ?thesis by (simp add: less_eq_prod_def)
  qed
  with Cons.IH[OF tl gx] show ?case by simp
qed

lemma sorted_hd_least:
  "sorted (map f xs) \<Longrightarrow> y \<in> set xs \<Longrightarrow> f (hd xs) \<le> f y"
  by (cases xs) auto


text \<open>
  What the query returns with a cutoff and without smoothing, for one plant or for all:
  one row per timestamp, in ascending order. The records of a timestamp that pass the
  filters are in ascending order of age; each column of the row holds the first value
  of that column among them that is not null, and \<open>src_dt\<close> is that of the freshest
  record. Where a column of the freshest record is not null, the row has its value.
\<close>

lemma latest_before_cutoff:
  assumes who: "pp = None \<or> (\<exists>i. pp = Some i \<and> get_pp_id i = Inr x)"
  shows "\<exists>df.
      get_pp_weather db pp dt_start dt_end all_indices src_age (Some m) False =
        Inr (Fetched ((if pp = None \<or> all_indices then [''pp_id''] else []) @ [''dt'']) df) \<and>
      sorted (map s_dt df) \<and> distinct (map s_dt df) \<and>
      (\<forall>g grp.
         grp = filter (\<lambda>r. ((pp = None \<or> w_pp_id r = pp_id x) \<and>
                   (case dt_start of None \<Rightarrow> True | Some b \<Rightarrow> convert_date_time b \<le> w_dt r) \<and>
                   (case dt_end of None \<Rightarrow> True | Some b \<Rightarrow> w_dt r \<le> convert_date_time b) \<and>
                   (case src_age of None \<Rightarrow> True | Some a \<Rightarrow> w_age r = a) \<and>
                   (case w_src_dt r of None \<Rightarrow> False | Some s \<Rightarrow> s \<le> m)) \<and> w_dt r = g)
                 (sort_key (\<lambda>r. (w_dt r, w_age r)) db) \<longrightarrow>
         grp \<noteq> [] \<longrightarrow>
         (\<forall>y \<in> set grp. w_age (hd grp) \<le> w_age y) \<and>
         (\<exists>r. filter (\<lambda>r. s_dt r = g) df = [r] \<and>
              s_summary r = first_non_null (map w_summary grp) \<and>
              s_features r = (\<lambda>f. first_non_null (map (\<lambda>q. w_features q f) grp)) \<and>
              s_ipolated r = first_non_null (map w_ipolated grp) \<and>
              s_epolated r = first_non_null (map w_epolated grp) \<and>
              r_src_dt r = w_src_dt (hd grp) \<and>
              (w_summary (hd grp) \<noteq> None \<longrightarrow> s_summary r = w_summary (hd grp)) \<and>
              (\<forall>f. w_features (hd grp) f \<noteq> None \<longrightarrow> s_features r f = w_features (hd grp) f) \<and>
              (w_ipolated (hd grp) \<noteq> None \<longrightarrow> s_ipolated r = w_ipolated (hd grp)) \<and>
              (w_epolated (hd grp) \<noteq> None \<longrightarrow> s_epolated r = w_epolated (hd grp))))"
proof -
  let ?Q = "\<lambda>r. (pp = None \<or> w_pp_id r = pp_id x) \<and>
                   (case dt_start of None \<Rightarrow> True | Some b \<Rightarrow> convert_date_time b \<le> w_dt r) \<and>
                   (case dt_end of None \<Rightarrow> True | Some b \<Rightarrow> w_dt r \<le> convert_date_time b) \<and>
                   (case src_age of None \<Rightarrow> True | Some a \<Rightarrow> w_age r = a) \<and>
                   (case w_src_dt r of None \<Rightarrow> False | Some s \<Rightarrow> s \<le> m)"
  let ?sorted = "sort_key (\<lambda>r. (w_dt r, w_age r)) db"
  let ?sel = "filter ?Q ?sorted"
  let ?hp = "pp = None \<or> all_indices"
  let ?fr = "map (select_weather ?hp False) ?sel"
  let ?df = "groupby_dt_first ?fr"
  have run: "get_pp_weather db pp dt_start dt_end all_indices src_age (Some m) False =
        Inr (Fetched ((if ?hp then [''pp_id''] else []) @ [''dt'']) ?df)"
    using who by (rule get_pp_weather_latest_unfold)
  have dts: "map s_dt ?df = sort (remdups (map s_dt ?fr))" by (rule s_dt_groupby_dt_first)
  have srt: "sorted (map s_dt ?df)" unfolding dts by simp
  have dst: "distinct (map s_dt ?df)" unfolding dts by simp
  have groups: "(\<forall>y \<in> set grp. w_age (hd grp) \<le> w_age y) \<and>
         (\<exists>r. filter (\<lambda>r. s_dt r = g) ?df = [r] \<and>
              s_summary r = first_non_null (map w_summary grp) \<and>
              s_features r = (\<lambda>f. first_non_null (map (\<lambda>q. w_features q f) grp)) \<and>
              s_ipolated r = first_non_null (map w_ipolated grp) \<and>
              s_epolated r = first_non_null (map w_epolated grp) \<and>
              r_src_dt r = w_src_dt (hd grp) \<and>
              (w_summary (hd grp) \<noteq> None \<longrightarrow> s_summary r = w_summary (hd grp)) \<and>
              (\<forall>f. w_features (hd grp) f \<noteq> None \<longrightarrow> s_features r f = w_features (hd grp) f) \<and>
              (w_ipolated (hd grp) \<noteq> None \<longrightarrow> s_ipolated r = w_ipolated (hd grp)) \<and>
              (w_epolated (hd grp) \<noteq> None \<longrightarrow> s_epolated r = w_epolated (hd grp)))"
    if grp: "grp = filter (\<lambda>r. ?Q r \<and> w_dt r = g) ?sorted" and ne: "grp \<noteq> []" for g grp
  proof -
    have grp2: "grp = filter (\<lambda>r. w_dt r = g) ?sel" unfolding grp by (simp only: filter_filter)
    have "sorted (map (\<lambda>r. (w_dt r, w_age r)) ?sorted)" by (rule sorted_sort_key)
    then have "sorted (map (\<lambda>r. (w_dt r, w_age r)) grp)" unfolding grp by (rule sorted_filter)
    moreover have "\<forall>r \<in> set grp. w_dt r = g" unfolding grp by simp
    ultimately have ages: "sorted (map w_age grp)" by (rule sorted_age_of_group)
    have least: "\<forall>y \<in> set grp. w_age (hd grp) \<le> w_age y"
    proof
      fix y assume "y \<in> set grp"
      with ages show "w_age (hd grp) \<le> w_age y" by (rule sorted_hd_least)
    qed
    have fg: "filter (\<lambda>r. s_dt r = g) ?fr = map (select_weather ?hp False) grp"
      unfolding grp2 by (simp add: filter_map comp_def select_weather_def)
    from ne have "hd grp \<in> set grp" by simp
    then have "w_dt (hd grp) = g" "hd grp \<in> set ?sel" unfolding grp2 by simp_all
    then have "w_dt (hd grp) \<in> w_dt ` set ?sel" by (intro imageI)
    then have "g \<in> set (map w_dt ?sel)" unfolding \<open>w_dt (hd grp) = g\<close> by (simp only: set_map)
    then have "g \<in> set (map s_dt ?fr)" by (simp only: s_dt_select_weather)
    then have at: "filter (\<lambda>r. s_dt r = g) ?df = [group_first g (map (select_weather ?hp False) grp)]"
      unfolding fg[symmetric] by (rule groupby_dt_first_at)
    let ?r = "group_first g (map (select_weather ?hp False) grp)"
    have c1: "s_summary ?r = first_non_null (map w_summary grp)"
      by (simp add: group_first_def comp_def select_weather_def)
    have c2: "s_features ?r = (\<lambda>f. first_non_null (map (\<lambda>q. w_features q f) grp))"
      by (simp add: group_first_def comp_def select_weather_def)
    have c3: "s_ipolated ?r = first_non_null (map w_ipolated grp)"
      by (simp add: group_first_def comp_def select_weather_def)
    have c4: "s_epolated ?r = first_non_null (map w_epolated grp)"
      by (simp add: group_first_def comp_def select_weather_def)
    have c5: "r_src_dt ?r = first_non_null (map w_src_dt grp)"
      by (simp add: group_first_def comp_def select_weather_def)
    from \<open>hd grp \<in> set grp\<close> have "case w_src_dt (hd grp) of None \<Rightarrow> False | Some s \<Rightarrow> s \<le> m"
      unfolding grp by simp
    then have "w_src_dt (hd grp) \<noteq> None" by (cases "w_src_dt (hd grp)") simp_all
    with ne have "first_non_null (map w_src_dt grp) = w_src_dt (hd grp)" by (rule first_non_null_hd)
    with c5 have c5': "r_src_dt ?r = w_src_dt (hd grp)" by simp
    have h1: "w_summary (hd grp) \<noteq> None \<longrightarrow> s_summary ?r = w_summary (hd grp)"
      unfolding c1 using ne by (simp add: first_non_null_hd)
    have h2: "\<forall>f. w_features (hd grp) f \<noteq> None \<longrightarrow> s_features ?r f = w_features (hd grp) f"
    proof (intro allI impI)
      fix f assume "w_features (hd grp) f \<noteq> None"
      with ne have "first_non_null (map (\<lambda>q. w_features q f) grp) = w_features (hd grp) f"
        by (rule first_non_null_hd[where f="\<lambda>q. w_features q f"])
      then show "s_features ?r f = w_features (hd grp) f" by (simp only: c2)
    qed
    have h3: "w_ipolated (hd grp) \<noteq> None \<longrightarrow> s_ipolated ?r = w_ipolated (hd grp)"
      unfolding c3 using ne by (simp add: first_non_null_hd)
    have h4: "w_epolated (hd grp) \<noteq> None \<longrightarrow> s_epolated ?r = w_epolated (hd grp)"
      unfolding c4 using ne by (simp add: first_non_null_hd)
    have "\<exists>r. filter (\<lambda>r. s_dt r = g) ?df = [r] \<and>
              s_summary r = first_non_null (map w_summary grp) \<and>
              s_features r = (\<lambda>f. first_non_null (map (\<lambda>q. w_features q f) grp)) \<and>
              s_ipolated r = first_non_null (map w_ipolated grp) \<and>
              s_epolated r = first_non_null (map w_epolated grp) \<and>
              r_src_dt r = w_src_dt (hd grp) \<and>
              (w_summary (hd grp) \<noteq> None \<longrightarrow> s_summary r = w_summary (hd grp)) \<and>
              (\<forall>f. w_features (hd grp) f \<noteq> None \<longrightarrow> s_features r f = w_features (hd grp) f) \<and>
              (w_ipolated (hd grp) \<noteq> None \<longrightarrow> s_ipolated r = w_ipolated (hd grp)) \<and>
              (w_epolated (hd grp) \<noteq> None \<longrightarrow> s_epolated r = w_epolated (hd grp))"
      by (rule exI[of _ ?r]) (intro conjI; fact)
    with least show ?thesis by (rule conjI)
  qed
  show ?thesis
  proof (rule exI[of _ ?df], intro conjI)
    show "get_pp_weather db pp dt_start dt_end all_indices src_age (Some m) False =
        Inr (Fetched ((if ?hp then [''pp_id''] else []) @ [''dt'']) ?df)" by (rule run)
    show "sorted (map s_dt ?df)" by (rule srt)
    show "distinct (map s_dt ?df)" by (rule dst)
    show "\<forall>g grp. grp = filter (\<lambda>r. ?Q r \<and> w_dt r = g) ?sorted \<longrightarrow> grp \<noteq> [] \<longrightarrow>
         (\<forall>y \<in> set grp. w_age (hd grp) \<le> w_age y) \<and>
         (\<exists>r. filter (\<lambda>r. s_dt r = g) ?df = [r] \<and>
              s_summary r = first_non_null (map w_summary grp) \<and>
              s_features r = (\<lambda>f. first_non_null (map (\<lambda>q. w_features q f) grp)) \<and>
              s_ipolated r = first_non_null (map w_ipolated grp) \<and>
              s_epolated r = first_non_null (map w_epolated grp) \<and>
              r_src_dt r = w_src_dt (hd grp) \<and>
              (w_summary (hd grp) \<noteq> None \<longrightarrow> s_summary r = w_summary (hd grp)) \<and>
              (\<forall>f. w_features (hd grp) f \<noteq> None \<longrightarrow> s_features r f = w_features (hd grp) f) \<and>
              (w_ipolated (hd grp) \<noteq> None \<longrightarrow> s_ipolated r = w_ipolated (hd grp)) \<and>
              (w_epolated (hd grp) \<noteq> None \<longrightarrow> s_epolated r = w_epolated (hd grp)))"
    proof (intro allI impI)
      fix g grp
      assume a: "grp = filter (\<lambda>r. ?Q r \<and> w_dt r = g) ?sorted" and b: "grp \<noteq> []"
      from a b show "(\<forall>y \<in> set grp. w_age (hd grp) \<le> w_age y) \<and>
         (\<exists>r. filter (\<lambda>r. s_dt r = g) ?df = [r] \<and>
              s_summary r = first_non_null (map w_summary grp) \<and>
              s_features r = (\<lambda>f. first_non_null (map (\<lambda>q. w_features q f) grp)) \<and>
              s_ipolated r = first_non_null (map w_ipolated grp) \<and>
              s_epolated r = first_non_null (map w_epolated grp) \<and>
              r_src_dt r = w_src_dt (hd grp) \<and>
              (w_summary (hd grp) \<noteq> None \<longrightarrow> s_summary r = w_summary (hd grp)) \<and>
              (\<forall>f. w_features (hd grp) f \<noteq> None \<longrightarrow> s_features r f = w_features (hd grp) f) \<and>
              (w_ipolated (hd grp) \<noteq> None \<longrightarrow> s_ipolated r = w_ipolated (hd grp)) \<and>
              (w_epolated (hd grp) \<noteq> None \<longrightarrow> s_epolated r = w_epolated (hd grp)))"
        by (rule groups)
    qed
  qed
qed

end
